theory Spec2Isabelle
  imports Main "HOL-Library.Word"
begin

section \<open>The runners service of go-gitlab (runners.go)\<close>

text \<open>
  The file \<^verbatim>\<open>runners.go\<close> holds the records of the runner endpoints and nine endpoint
  functions. Every function normalises its identifiers with \<^verbatim>\<open>parseID\<close>, builds a
  relative path with \<^verbatim>\<open>fmt.Sprintf\<close>, asks the shared client for a request
  (\<^verbatim>\<open>NewRequest\<close>) and lets the client execute it (\<^verbatim>\<open>Do\<close>).

  Conventions of the embedding:
  \<^item> a Go pointer or slice that may be \<^verbatim>\<open>nil\<close> is an \<open>option\<close> (\<open>None\<close> is \<^verbatim>\<open>nil\<close>);
  \<^item> Go's \<^verbatim>\<open>int\<close> is taken at its 64-bit width, read with \<open>sint\<close>;
  \<^item> Go strings are byte strings, as \<open>string\<close> is;
  \<^item> a Go \<^verbatim>\<open>(value, error)\<close> pair of which the caller reads the value only when the
    error is \<^verbatim>\<open>nil\<close> is a sum, \<open>Inl\<close> the error;
  \<^item> the world outside the module (the network, the client's own state) is a state
    \<open>'w\<close> that every call on the client takes and returns.
\<close>

subsection \<open>Data\<close>

type_synonym go_int = "64 word"

type_synonym 'a ptr = "'a option"

type_synonym 'a slice = "'a list option"

record Runner =
  ID :: go_int
  Description :: string
  Active :: bool
  IsShared :: bool
  Name :: string
  Online :: bool
  Status :: string

text \<open>The anonymous struct of \<^verbatim>\<open>RunnersDetails.Projects\<close>; its fields carry the suffix \<open>_p\<close>.\<close>

record Project =
  ID_p :: go_int
  Name_p :: string
  NameWithNamespace_p :: string
  Path_p :: string
  PathWithNamespace_p :: string

text \<open>
  \<^verbatim>\<open>RunnersDetails\<close>; its fields carry the suffix \<open>_d\<close> where \<^verbatim>\<open>Runner\<close> has the same
  name. \<open>'tm\<close> is \<^verbatim>\<open>time.Time\<close>.
\<close>

record 'tm RunnersDetails =
  Active_d :: bool
  Architecture :: string
  Description_d :: string
  ID_d :: go_int
  IsShared_d :: bool
  ContactedAt :: "'tm ptr"
  Name_d :: string
  Online_d :: bool
  Status_d :: string
  Platform :: string
  Projects :: "Project slice"
  Token :: string
  Revision :: string
  TagList :: "string slice"
  Version :: string
  AccessLevel :: string

text \<open>
  The option structs. \<open>'lo\<close> is the embedded \<^verbatim>\<open>ListOptions\<close> and \<open>'bs\<close> is \<^verbatim>\<open>BuildState\<close>;
  both are declared elsewhere in the package and stay parameters.
\<close>

record 'lo ListRunnersOptions =
  ListOptions :: 'lo
  Scope :: "string ptr"

record UpdateRunnersDetailsOptions =
  Description_u :: "string ptr"
  Active_u :: "bool ptr"
  TagList_u :: "string slice"
  RunUntagged :: "bool ptr"
  Locked :: "bool ptr"
  AccessLevel_u :: "string ptr"

record ('lo, 'bs) ListRunnersJobsOptions =
  ListOptions_j :: 'lo
  Status_j :: "'bs ptr"

text \<open>\<^verbatim>\<open>type ListProjectRunnersOptions ListRunnersOptions\<close>: the same struct under a new name.\<close>

type_synonym 'lo ListProjectRunnersOptions = "'lo ListRunnersOptions"

record EnableProjectRunnerOptions =
  RunnerID :: go_int

subsection \<open>Identifiers and errors\<close>

text \<open>
  An identifier is an \<^verbatim>\<open>interface{}\<close>: an \<^verbatim>\<open>int\<close>, a \<^verbatim>\<open>string\<close>, or a value of any other
  type, which \<open>OtherID\<close> holds by its Go-syntax text.
\<close>

datatype ident = IntID go_int | StrID string | OtherID string

text \<open>
  A Go \<^verbatim>\<open>error\<close>: the one that identifier normalisation raises, or one of the shared
  client's, held by its message.
\<close>

datatype error = InvalidID ident | ClientError string

text \<open>\<^verbatim>\<open>strconv.Itoa\<close> of the Go standard library: the decimal text of an \<^verbatim>\<open>int\<close>.\<close>

definition digits :: string where
  "digits = ''0123456789''"

fun decimal :: "nat \<Rightarrow> string" where
  "decimal n =
     (if n < 10 then [digits ! n]
      else decimal (n div 10) @ [digits ! (n mod 10)])"

declare decimal.simps [simp del]

definition Itoa :: "go_int \<Rightarrow> string" where
  "Itoa i = (if sint i < 0 then CHR ''-'' # decimal (nat (- sint i)) else decimal (nat (sint i)))"

text \<open>
  Modelled from the spec: \<^verbatim>\<open>parseID\<close>, the package's identifier normalisation, which is
  not in \<^verbatim>\<open>runners.go\<close>. The spec has it accept "either a numeric ID or a path-safe
  string" and return "a path-safe string or a typed error": a number is normalised to
  its decimal text, a string is accepted as it is, any other value is the error.
\<close>

fun parseID :: "ident \<Rightarrow> error + string" where
  "parseID (IntID n) = Inr (Itoa n)"
| "parseID (StrID s) = Inr s"
| "parseID (OtherID v) = Inl (InvalidID (OtherID v))"

subsection \<open>\<^verbatim>\<open>url.QueryEscape\<close>\<close>

text \<open>
  \<^verbatim>\<open>url.QueryEscape\<close> of the Go standard library is \<^verbatim>\<open>escape(s, encodeQueryComponent)\<close>:
  a byte is kept when \<^verbatim>\<open>shouldEscape\<close> is false for it (letters, digits and
  \<^verbatim>\<open>- _ . ~\<close>), a space becomes \<^verbatim>\<open>+\<close>, and every other byte \<^verbatim>\<open>c\<close> becomes \<^verbatim>\<open>%\<close>,
  \<^verbatim>\<open>upperhex[c>>4]\<close> and \<^verbatim>\<open>upperhex[c&15]\<close> (both indices are below 16).
\<close>

definition shouldEscape :: "char \<Rightarrow> bool" where
  "shouldEscape c =
     (let n = (of_char c :: nat) in
      if (97 \<le> n \<and> n \<le> 122) \<or> (65 \<le> n \<and> n \<le> 90) \<or> (48 \<le> n \<and> n \<le> 57) then False
      else if c = CHR ''-'' \<or> c = CHR ''_'' \<or> c = CHR ''.'' \<or> c = CHR ''~'' then False
      else True)"

definition upperhex :: string where
  "upperhex = ''0123456789ABCDEF''"

fun QueryEscape :: "string \<Rightarrow> string" where
  "QueryEscape [] = []"
| "QueryEscape (c # cs) =
     (if shouldEscape c then
        (if c = CHR '' '' then [CHR ''+'']
         else [CHR ''%'', upperhex ! (of_char c div 16), upperhex ! (of_char c mod 16)])
      else [c]) @ QueryEscape cs"

subsection \<open>The shared client\<close>

text \<open>
  The client is declared elsewhere in the package; the endpoint functions only call
  its two methods, so it is a record of them:
  \<^item> \<open>NewRequest c method path opt options w\<close>: \<open>opt\<close> is an \<^verbatim>\<open>interface{}\<close>, \<open>None\<close> when
    the caller passes the literal \<^verbatim>\<open>nil\<close>; \<open>options\<close> are the \<^verbatim>\<open>OptionFunc\<close>s;
  \<^item> \<open>Do c req v w\<close>: \<open>v\<close> is the decode target, \<open>None\<close> for \<^verbatim>\<open>nil\<close> and \<open>Some x\<close>
    for the address of a variable that holds \<open>x\<close>. The result is the content of that
    variable after the call (of no meaning when \<open>v\<close> is \<open>None\<close>), the response and the
    error.
  \<open>'o\<close> is the type of the options struct, \<open>'f\<close> of an \<^verbatim>\<open>OptionFunc\<close>, \<open>'q\<close> of a
  request, \<open>'r\<close> of a response, \<open>'t\<close> of the decode target's variable.
\<close>

record ('w, 'o, 'f, 'q, 'r, 't) Client =
  NewRequest :: "string \<Rightarrow> string \<Rightarrow> 'o option \<Rightarrow> 'f list \<Rightarrow> 'w \<Rightarrow> (error + 'q) \<times> 'w"
  Do :: "'q \<Rightarrow> 't option \<Rightarrow> 'w \<Rightarrow> ('t \<times> 'r ptr \<times> error option) \<times> 'w"

subsection \<open>The endpoint functions\<close>

text \<open>
  The receiver \<^verbatim>\<open>s *RunnersService\<close> is given by its only field, the client \<open>c\<close>. A
  function of Go type \<^verbatim>\<open>(T, *Response, error)\<close> returns a triple, and the world after it.
\<close>

definition ListRunners ::
  "('w, 'lo ListRunnersOptions ptr, 'f, 'q, 'r, Runner ptr slice) Client \<Rightarrow>
   'lo ListRunnersOptions ptr \<Rightarrow> 'f list \<Rightarrow> 'w \<Rightarrow>
   (Runner ptr slice \<times> 'r ptr \<times> error option) \<times> 'w" where
  "ListRunners c opt options w =
     (case NewRequest c ''GET'' ''runners'' (Some opt) options w of
        (Inl err, w1) \<Rightarrow> ((None, None, Some err), w1)
      | (Inr req, w1) \<Rightarrow>
          (case Do c req (Some None) w1 of
             ((rs, resp, Some err), w2) \<Rightarrow> ((None, resp, Some err), w2)
           | ((rs, resp, None), w2) \<Rightarrow> ((rs, resp, None), w2)))"

definition ListAllRunners ::
  "('w, 'lo ListRunnersOptions ptr, 'f, 'q, 'r, Runner ptr slice) Client \<Rightarrow>
   'lo ListRunnersOptions ptr \<Rightarrow> 'f list \<Rightarrow> 'w \<Rightarrow>
   (Runner ptr slice \<times> 'r ptr \<times> error option) \<times> 'w" where
  "ListAllRunners c opt options w =
     (case NewRequest c ''GET'' ''runners/all'' (Some opt) options w of
        (Inl err, w1) \<Rightarrow> ((None, None, Some err), w1)
      | (Inr req, w1) \<Rightarrow>
          (case Do c req (Some None) w1 of
             ((rs, resp, Some err), w2) \<Rightarrow> ((None, resp, Some err), w2)
           | ((rs, resp, None), w2) \<Rightarrow> ((rs, resp, None), w2)))"

definition GetRunnerDetails ::
  "('w, 'o, 'f, 'q, 'r, 'tm RunnersDetails ptr) Client \<Rightarrow>
   ident \<Rightarrow> 'f list \<Rightarrow> 'w \<Rightarrow>
   ('tm RunnersDetails ptr \<times> 'r ptr \<times> error option) \<times> 'w" where
  "GetRunnerDetails c rid options w =
     (case parseID rid of
        Inl err \<Rightarrow> ((None, None, Some err), w)
      | Inr runner \<Rightarrow>
          (let u = ''runners/'' @ runner in
           case NewRequest c ''GET'' u None options w of
             (Inl err, w1) \<Rightarrow> ((None, None, Some err), w1)
           | (Inr req, w1) \<Rightarrow>
               (case Do c req (Some None) w1 of
                  ((rs, resp, Some err), w2) \<Rightarrow> ((None, resp, Some err), w2)
                | ((rs, resp, None), w2) \<Rightarrow> ((rs, resp, None), w2))))"

definition UpdateRunnersDetails ::
  "('w, UpdateRunnersDetailsOptions ptr, 'f, 'q, 'r, 'tm RunnersDetails ptr) Client \<Rightarrow>
   ident \<Rightarrow> UpdateRunnersDetailsOptions ptr \<Rightarrow> 'f list \<Rightarrow> 'w \<Rightarrow>
   ('tm RunnersDetails ptr \<times> 'r ptr \<times> error option) \<times> 'w" where
  "UpdateRunnersDetails c rid opt options w =
     (case parseID rid of
        Inl err \<Rightarrow> ((None, None, Some err), w)
      | Inr runner \<Rightarrow>
          (let u = ''runners/'' @ runner in
           case NewRequest c ''PUT'' u (Some opt) options w of
             (Inl err, w1) \<Rightarrow> ((None, None, Some err), w1)
           | (Inr req, w1) \<Rightarrow>
               (case Do c req (Some None) w1 of
                  ((rs, resp, Some err), w2) \<Rightarrow> ((None, resp, Some err), w2)
                | ((rs, resp, None), w2) \<Rightarrow> ((rs, resp, None), w2))))"

text \<open>
  The delete-style functions have the Go type \<^verbatim>\<open>(*Response, error)\<close> and end in
  \<^verbatim>\<open>return s.client.Do(req, nil)\<close>: what \<open>Do\<close> returns is what they return.
\<close>

definition RemoveARunner ::
  "('w, 'o, 'f, 'q, 'r, 't) Client \<Rightarrow> ident \<Rightarrow> 'f list \<Rightarrow> 'w \<Rightarrow>
   ('r ptr \<times> error option) \<times> 'w" where
  "RemoveARunner c rid options w =
     (case parseID rid of
        Inl err \<Rightarrow> ((None, Some err), w)
      | Inr runner \<Rightarrow>
          (let u = ''runners/'' @ runner in
           case NewRequest c ''DELETE'' u None options w of
             (Inl err, w1) \<Rightarrow> ((None, Some err), w1)
           | (Inr req, w1) \<Rightarrow>
               (case Do c req None w1 of ((x, resp, err), w2) \<Rightarrow> ((resp, err), w2))))"

text \<open>\<open>'job\<close> is \<^verbatim>\<open>Job\<close>, declared elsewhere in the package.\<close>

definition ListRunnerJobs ::
  "('w, ('lo, 'bs) ListRunnersJobsOptions ptr, 'f, 'q, 'r, 'job ptr slice) Client \<Rightarrow>
   ident \<Rightarrow> ('lo, 'bs) ListRunnersJobsOptions ptr \<Rightarrow> 'f list \<Rightarrow> 'w \<Rightarrow>
   ('job ptr slice \<times> 'r ptr \<times> error option) \<times> 'w" where
  "ListRunnerJobs c rid opt options w =
     (case parseID rid of
        Inl err \<Rightarrow> ((None, None, Some err), w)
      | Inr runner \<Rightarrow>
          (let u = ''runners/'' @ runner @ ''/jobs'' in
           case NewRequest c ''GET'' u (Some opt) options w of
             (Inl err, w1) \<Rightarrow> ((None, None, Some err), w1)
           | (Inr req, w1) \<Rightarrow>
               (case Do c req (Some None) w1 of
                  ((rs, resp, Some err), w2) \<Rightarrow> ((None, resp, Some err), w2)
                | ((rs, resp, None), w2) \<Rightarrow> ((rs, resp, None), w2))))"

definition ListProjectRunners ::
  "('w, 'lo ListProjectRunnersOptions ptr, 'f, 'q, 'r, Runner ptr slice) Client \<Rightarrow>
   ident \<Rightarrow> 'lo ListProjectRunnersOptions ptr \<Rightarrow> 'f list \<Rightarrow> 'w \<Rightarrow>
   (Runner ptr slice \<times> 'r ptr \<times> error option) \<times> 'w" where
  "ListProjectRunners c pid opt options w =
     (case parseID pid of
        Inl err \<Rightarrow> ((None, None, Some err), w)
      | Inr project \<Rightarrow>
          (let u = ''projects/'' @ QueryEscape project @ ''/runners'' in
           case NewRequest c ''GET'' u (Some opt) options w of
             (Inl err, w1) \<Rightarrow> ((None, None, Some err), w1)
           | (Inr req, w1) \<Rightarrow>
               (case Do c req (Some None) w1 of
                  ((rs, resp, Some err), w2) \<Rightarrow> ((None, resp, Some err), w2)
                | ((rs, resp, None), w2) \<Rightarrow> ((rs, resp, None), w2))))"

definition EnableProjectRunner ::
  "('w, EnableProjectRunnerOptions ptr, 'f, 'q, 'r, Runner ptr) Client \<Rightarrow>
   ident \<Rightarrow> EnableProjectRunnerOptions ptr \<Rightarrow> 'f list \<Rightarrow> 'w \<Rightarrow>
   (Runner ptr \<times> 'r ptr \<times> error option) \<times> 'w" where
  "EnableProjectRunner c pid opt options w =
     (case parseID pid of
        Inl err \<Rightarrow> ((None, None, Some err), w)
      | Inr project \<Rightarrow>
          (let u = ''projects/'' @ QueryEscape project @ ''/runners'' in
           case NewRequest c ''POST'' u (Some opt) options w of
             (Inl err, w1) \<Rightarrow> ((None, None, Some err), w1)
           | (Inr req, w1) \<Rightarrow>
               (case Do c req (Some None) w1 of
                  ((r, resp, Some err), w2) \<Rightarrow> ((None, resp, Some err), w2)
                | ((r, resp, None), w2) \<Rightarrow> ((r, resp, None), w2))))"

definition DisableProjectRunner ::
  "('w, 'o, 'f, 'q, 'r, 't) Client \<Rightarrow> ident \<Rightarrow> ident \<Rightarrow> 'f list \<Rightarrow> 'w \<Rightarrow>
   ('r ptr \<times> error option) \<times> 'w" where
  "DisableProjectRunner c pid rid options w =
     (case parseID pid of
        Inl err \<Rightarrow> ((None, Some err), w)
      | Inr project \<Rightarrow>
          (case parseID rid of
             Inl err \<Rightarrow> ((None, Some err), w)
           | Inr runner \<Rightarrow>
               (let u = ''projects/'' @ QueryEscape project @ ''/runners/'' @ QueryEscape runner in
                case NewRequest c ''DELETE'' u None options w of
                  (Inl err, w1) \<Rightarrow> ((None, Some err), w1)
                | (Inr req, w1) \<Rightarrow>
                    (case Do c req None w1 of ((x, resp, err), w2) \<Rightarrow> ((resp, err), w2)))))"

subsection \<open>A recording client\<close>

text \<open>
  To observe what an endpoint function asks of the client, \<open>recorder\<close> is a client
  whose world is the log of the calls made on it. Its \<open>NewRequest\<close> fails with \<open>e\<close> when
  \<open>nr = Some e\<close> and otherwise returns the method and the path as the request; its
  \<open>Do\<close> returns \<open>dr\<close>. A call is logged with whether its \<open>opt\<close> (its target) was \<^verbatim>\<open>nil\<close>.
\<close>

datatype call = NewRequestCall string string bool | DoCall string string bool

definition recorder ::
  "error option \<Rightarrow> ('t \<times> 'r ptr \<times> error option) \<Rightarrow>
   (call list, 'o, 'f, string \<times> string, 'r, 't) Client" where
  "recorder nr dr =
     \<lparr> NewRequest = (\<lambda>m u opt fs log.
         ((case nr of Some e \<Rightarrow> Inl e | None \<Rightarrow> Inr (m, u)),
          log @ [NewRequestCall m u (opt = None)])),
       Do = (\<lambda>req v log. (dr, log @ [DoCall (fst req) (snd req) (v = None)])) \<rparr>"

text \<open>
  The recording client at the types of the endpoint functions, with nothing in the
  \<^verbatim>\<open>OptionFunc\<close>s, the embedded \<^verbatim>\<open>ListOptions\<close>, the \<^verbatim>\<open>BuildState\<close> and a \<^verbatim>\<open>Job\<close>, and with a
  response given by its status line.
\<close>

definition list_recorder ::
  "error option \<Rightarrow> (Runner ptr slice \<times> string ptr \<times> error option) \<Rightarrow>
   (call list, unit ListRunnersOptions ptr, unit, string \<times> string, string, Runner ptr slice) Client" where
  "list_recorder = recorder"

definition details_recorder ::
  "error option \<Rightarrow> (string RunnersDetails ptr \<times> string ptr \<times> error option) \<Rightarrow>
   (call list, UpdateRunnersDetailsOptions ptr, unit, string \<times> string, string,
    string RunnersDetails ptr) Client" where
  "details_recorder = recorder"

definition jobs_recorder ::
  "error option \<Rightarrow> (unit ptr slice \<times> string ptr \<times> error option) \<Rightarrow>
   (call list, (unit, unit) ListRunnersJobsOptions ptr, unit, string \<times> string, string,
    unit ptr slice) Client" where
  "jobs_recorder = recorder"

definition enable_recorder ::
  "error option \<Rightarrow> (Runner ptr \<times> string ptr \<times> error option) \<Rightarrow>
   (call list, EnableProjectRunnerOptions ptr, unit, string \<times> string, string, Runner ptr) Client" where
  "enable_recorder = recorder"

definition delete_recorder ::
  "error option \<Rightarrow> (unit \<times> string ptr \<times> error option) \<Rightarrow>
   (call list, unit, unit, string \<times> string, string, unit) Client" where
  "delete_recorder = recorder"

subsection \<open>Struct tags and what the encoders write\<close>

text \<open>
  The option structs reach the wire through two encoders, which read the struct tags:
  \<^verbatim>\<open>query.Values\<close> (tag \<^verbatim>\<open>url\<close>) for the query string and \<^verbatim>\<open>json.Marshal\<close> (tag
  \<^verbatim>\<open>json\<close>) for the body. Both write a field under the name of its tag, and both leave
  out a field tagged \<^verbatim>\<open>omitempty\<close> whose value is empty (\<^verbatim>\<open>isEmptyValue\<close>): a nil
  pointer, a slice or string of length 0, \<^verbatim>\<open>false\<close>, 0. A field without a tag for the
  encoder goes under its Go name.

  \<open>goval\<close> is the Go value of a field, a \<open>field\<close> is a field as an encoder sees it
  (name, \<^verbatim>\<open>omitempty\<close>, value), and \<open>emit\<close> gives the entries written, in the order
  of the fields.
\<close>

datatype goval = NilV | PtrV goval | StrV string | BoolV bool | IntV go_int | SliceV "goval list"

fun isEmptyValue :: "goval \<Rightarrow> bool" where
  "isEmptyValue NilV = True"
| "isEmptyValue (PtrV v) = False"
| "isEmptyValue (StrV s) = (length s = 0)"
| "isEmptyValue (BoolV b) = (\<not> b)"
| "isEmptyValue (IntV n) = (n = 0)"
| "isEmptyValue (SliceV xs) = (length xs = 0)"

type_synonym field = "string \<times> bool \<times> goval"

fun emit :: "field list \<Rightarrow> (string \<times> goval) list" where
  "emit [] = []"
| "emit ((name, omitempty, v) # fs) =
     (if omitempty \<and> isEmptyValue v then emit fs else (name, v) # emit fs)"

definition ptrV :: "('a \<Rightarrow> goval) \<Rightarrow> 'a ptr \<Rightarrow> goval" where
  "ptrV f p = (case p of None \<Rightarrow> NilV | Some x \<Rightarrow> PtrV (f x))"

definition sliceV :: "('a \<Rightarrow> goval) \<Rightarrow> 'a slice \<Rightarrow> goval" where
  "sliceV f s = (case s of None \<Rightarrow> NilV | Some xs \<Rightarrow> SliceV (map f xs))"

text \<open>
  The fields of the option structs, from their tags. The fields of the embedded
  \<^verbatim>\<open>ListOptions\<close> come first; \<open>lf\<close> gives them for the encoder at hand, and \<open>bs\<close> gives
  the Go value of a \<^verbatim>\<open>BuildState\<close>. \<^verbatim>\<open>ListRunnersOptions\<close> and \<^verbatim>\<open>ListRunnersJobsOptions\<close>
  carry the same names in both tags.
\<close>

definition ListRunnersOptions_fields ::
  "('lo \<Rightarrow> field list) \<Rightarrow> 'lo ListRunnersOptions \<Rightarrow> field list" where
  "ListRunnersOptions_fields lf opt =
     lf (ListOptions opt) @ [(''scope'', True, ptrV StrV (Scope opt))]"

definition UpdateRunnersDetailsOptions_url :: "UpdateRunnersDetailsOptions \<Rightarrow> field list" where
  "UpdateRunnersDetailsOptions_url opt =
     [(''description'', True, ptrV StrV (Description_u opt)),
      (''active'', True, ptrV BoolV (Active_u opt)),
      (''tag_list[]'', True, sliceV StrV (TagList_u opt)),
      (''run_untagged'', True, ptrV BoolV (RunUntagged opt)),
      (''locked'', True, ptrV BoolV (Locked opt)),
      (''access_level'', True, ptrV StrV (AccessLevel_u opt))]"

definition UpdateRunnersDetailsOptions_json :: "UpdateRunnersDetailsOptions \<Rightarrow> field list" where
  "UpdateRunnersDetailsOptions_json opt =
     [(''description'', True, ptrV StrV (Description_u opt)),
      (''active'', True, ptrV BoolV (Active_u opt)),
      (''tag_list'', True, sliceV StrV (TagList_u opt)),
      (''run_untagged'', True, ptrV BoolV (RunUntagged opt)),
      (''locked'', True, ptrV BoolV (Locked opt)),
      (''access_level'', True, ptrV StrV (AccessLevel_u opt))]"

definition ListRunnersJobsOptions_fields ::
  "('lo \<Rightarrow> field list) \<Rightarrow> ('bs \<Rightarrow> goval) \<Rightarrow> ('lo, 'bs) ListRunnersJobsOptions \<Rightarrow> field list" where
  "ListRunnersJobsOptions_fields lf bs opt =
     lf (ListOptions_j opt) @ [(''status'', True, ptrV bs (Status_j opt))]"

text \<open>\<^verbatim>\<open>RunnerID int `json:"runner_id"`\<close>: no \<^verbatim>\<open>omitempty\<close>, and no \<^verbatim>\<open>url\<close> tag.\<close>

definition EnableProjectRunnerOptions_json :: "EnableProjectRunnerOptions \<Rightarrow> field list" where
  "EnableProjectRunnerOptions_json opt = [(''runner_id'', False, IntV (RunnerID opt))]"

definition EnableProjectRunnerOptions_url :: "EnableProjectRunnerOptions \<Rightarrow> field list" where
  "EnableProjectRunnerOptions_url opt = [(''RunnerID'', False, IntV (RunnerID opt))]"

subsection \<open>JSON and \<^verbatim>\<open>json.Unmarshal\<close>\<close>

text \<open>
  A parsed JSON value. An object keeps its members in the order of the text, with
  repeated keys. Numbers are the integers; a number with a fraction or an exponent is
  not modelled.
\<close>

datatype json = JNull | JBool bool | JNum int | JStr string | JArr "json list"
  | JObj "(string \<times> json) list"

text \<open>
  \<^verbatim>\<open>json.Unmarshal\<close> of the Go standard library matches a key of an object to a field of
  the struct by the name in the field's \<^verbatim>\<open>json\<close> tag: the field whose name is the key, or
  else the first field whose name equals the key under Unicode's simple case folding
  (\<^verbatim>\<open>bytes.EqualFold\<close>). A key that matches no field is skipped.

  The names of the tags are ASCII. Besides the two cases of a letter, folding makes
  the Kelvin sign (U+212A, the bytes E2 84 AA in UTF-8) equal to \<^verbatim>\<open>k\<close> and the long s
  (U+017F, the bytes C5 BF) equal to \<^verbatim>\<open>s\<close>, and nothing else equal to an ASCII
  character. \<open>foldName\<close> folds a key accordingly, and \<open>equalFold\<close> is
  \<^verbatim>\<open>bytes.EqualFold\<close> whenever one of the two strings is ASCII.
\<close>

definition lower :: "char \<Rightarrow> char" where
  "lower c =
     (case map_of (zip ''ABCDEFGHIJKLMNOPQRSTUVWXYZ'' ''abcdefghijklmnopqrstuvwxyz'') c of
        None \<Rightarrow> c
      | Some l \<Rightarrow> l)"

fun foldName :: "string \<Rightarrow> string" where
  "foldName [] = []"
| "foldName (c # cs) =
     (if c = CHR 0xE2 \<and> take 2 cs = [CHR 0x84, CHR 0xAA] then CHR ''k'' # foldName (drop 2 cs)
      else if c = CHR 0xC5 \<and> take 1 cs = [CHR 0xBF] then CHR ''s'' # foldName (drop 1 cs)
      else lower c # foldName cs)"

definition equalFold :: "string \<Rightarrow> string \<Rightarrow> bool" where
  "equalFold a b = (foldName a = foldName b)"

definition find_field :: "string list \<Rightarrow> string \<Rightarrow> string option" where
  "find_field names key =
     (if key \<in> set names then Some key else find (\<lambda>n. equalFold n key) names)"

text \<open>
  A value that does not fit the type of its field is an \<^verbatim>\<open>UnmarshalTypeError\<close>;
  \<^verbatim>\<open>Unmarshal\<close> returns the first one. \<^verbatim>\<open>null\<close> leaves a string, a bool or an int as it
  is, and makes a pointer or a slice nil. An \<^verbatim>\<open>int\<close> takes a number of its 64-bit range.
\<close>

definition cannot_unmarshal :: "string \<Rightarrow> error" where
  "cannot_unmarshal what = ClientError (''json: cannot unmarshal into '' @ what)"

fun dec_string :: "string \<Rightarrow> json \<Rightarrow> string \<Rightarrow> error + string" where
  "dec_string what JNull cur = Inr cur"
| "dec_string what (JStr s) cur = Inr s"
| "dec_string what v cur = Inl (cannot_unmarshal what)"

fun dec_bool :: "string \<Rightarrow> json \<Rightarrow> bool \<Rightarrow> error + bool" where
  "dec_bool what JNull cur = Inr cur"
| "dec_bool what (JBool b) cur = Inr b"
| "dec_bool what v cur = Inl (cannot_unmarshal what)"

fun dec_int :: "string \<Rightarrow> json \<Rightarrow> go_int \<Rightarrow> error + go_int" where
  "dec_int what JNull cur = Inr cur"
| "dec_int what (JNum n) cur =
     (if - (2 ^ 63) \<le> n \<and> n < 2 ^ 63 then Inr (word_of_int n) else Inl (cannot_unmarshal what))"
| "dec_int what v cur = Inl (cannot_unmarshal what)"

text \<open>
  The members of an object, decoded into a struct one after the other: \<open>names\<close> are the
  names of the struct's tags in the order of its fields, and \<open>assign n v x\<close> decodes
  the value \<open>v\<close> into the field named \<open>n\<close> of \<open>x\<close>.
\<close>

fun dec_members ::
  "string list \<Rightarrow> (string \<Rightarrow> json \<Rightarrow> 'a \<Rightarrow> error + 'a) \<Rightarrow> (string \<times> json) list \<Rightarrow> 'a \<Rightarrow> error + 'a" where
  "dec_members names assign [] x = Inr x"
| "dec_members names assign ((key, v) # kvs) x =
     (case find_field names key of
        None \<Rightarrow> dec_members names assign kvs x
      | Some n \<Rightarrow>
          (case assign n v x of
             Inl e \<Rightarrow> Inl e
           | Inr x' \<Rightarrow> dec_members names assign kvs x'))"

text \<open>
  An array is decoded into the slice that the field or the target already holds: the
  element at an index is decoded into the element that the backing array has there,
  and into the zero value \<open>z\<close> of the type beyond it. \<open>old\<close> is what the backing array
  holds: the elements of the slice, and after them those that an earlier, longer array
  under the same key has left beyond its length.
\<close>

fun dec_elements ::
  "(json \<Rightarrow> 'a \<Rightarrow> error + 'a) \<Rightarrow> 'a \<Rightarrow> 'a list \<Rightarrow> json list \<Rightarrow> error + 'a list" where
  "dec_elements dec z old [] = Inr []"
| "dec_elements dec z old (v # vs) =
     (case dec v (case old of [] \<Rightarrow> z | x # xs \<Rightarrow> x) of
        Inl e \<Rightarrow> Inl e
      | Inr y \<Rightarrow>
          (case dec_elements dec z (drop 1 old) vs of
             Inl e \<Rightarrow> Inl e
           | Inr ys \<Rightarrow> Inr (y # ys)))"

text \<open>
  A slice with the rest of its backing array, \<open>(cur, rest)\<close>. \<^verbatim>\<open>null\<close> makes the slice
  nil and the empty array makes it a new empty slice; both drop the backing array. Any
  other array is decoded element by element and sets the length, and what the backing
  array holds beyond it stays.
\<close>

fun dec_slice ::
  "string \<Rightarrow> (json \<Rightarrow> 'a \<Rightarrow> error + 'a) \<Rightarrow> 'a \<Rightarrow> 'a slice \<times> 'a list \<Rightarrow> json \<Rightarrow>
   error + 'a slice \<times> 'a list" where
  "dec_slice what dec z (cur, rest) JNull = Inr (None, [])"
| "dec_slice what dec z (cur, rest) (JArr []) = Inr (Some [], [])"
| "dec_slice what dec z (cur, rest) (JArr vs) =
     (let old = (case cur of None \<Rightarrow> [] | Some xs \<Rightarrow> xs) @ rest in
      case dec_elements dec z old vs of
        Inl e \<Rightarrow> Inl e
      | Inr ys \<Rightarrow> Inr (Some ys, drop (length vs) old))"
| "dec_slice what dec z (cur, rest) v = Inl (cannot_unmarshal what)"

text \<open>
  A pointer to a struct: \<^verbatim>\<open>null\<close> makes it nil; any other value is decoded into the
  struct it points to, a new zero struct \<open>z\<close> when it is nil.
\<close>

fun dec_ptr :: "(json \<Rightarrow> 'a \<Rightarrow> error + 'a) \<Rightarrow> 'a \<Rightarrow> json \<Rightarrow> 'a ptr \<Rightarrow> error + 'a ptr" where
  "dec_ptr dec z JNull cur = Inr None"
| "dec_ptr dec z v cur =
     (case dec v (case cur of None \<Rightarrow> z | Some x \<Rightarrow> x) of
        Inl e \<Rightarrow> Inl e
      | Inr x \<Rightarrow> Inr (Some x))"

text \<open>\<^verbatim>\<open>Runner\<close>: the names of its tags, its zero value, and the decoding of a value.\<close>

definition Runner_names :: "string list" where
  "Runner_names =
     [''id'', ''description'', ''active'', ''is_shared'', ''name'', ''online'', ''status'']"

definition Runner_zero :: Runner where
  "Runner_zero =
     \<lparr> ID = 0, Description = [], Active = False, IsShared = False, Name = [],
       Online = False, Status = [] \<rparr>"

definition Runner_assign :: "string \<Rightarrow> json \<Rightarrow> Runner \<Rightarrow> error + Runner" where
  "Runner_assign n v r =
     (if n = ''id'' then map_sum id (\<lambda>x. r\<lparr>ID := x\<rparr>) (dec_int n v (ID r))
      else if n = ''description'' then
        map_sum id (\<lambda>x. r\<lparr>Description := x\<rparr>) (dec_string n v (Description r))
      else if n = ''active'' then map_sum id (\<lambda>x. r\<lparr>Active := x\<rparr>) (dec_bool n v (Active r))
      else if n = ''is_shared'' then
        map_sum id (\<lambda>x. r\<lparr>IsShared := x\<rparr>) (dec_bool n v (IsShared r))
      else if n = ''name'' then map_sum id (\<lambda>x. r\<lparr>Name := x\<rparr>) (dec_string n v (Name r))
      else if n = ''online'' then map_sum id (\<lambda>x. r\<lparr>Online := x\<rparr>) (dec_bool n v (Online r))
      else if n = ''status'' then map_sum id (\<lambda>x. r\<lparr>Status := x\<rparr>) (dec_string n v (Status r))
      else Inr r)"

fun dec_Runner :: "json \<Rightarrow> Runner \<Rightarrow> error + Runner" where
  "dec_Runner JNull r = Inr r"
| "dec_Runner (JObj kvs) r = dec_members Runner_names Runner_assign kvs r"
| "dec_Runner v r = Inl (cannot_unmarshal ''Runner'')"

text \<open>
  The target of the list functions, \<^verbatim>\<open>[]*Runner\<close>, holding the slice \<open>cur\<close>: nil when the
  endpoint functions call \<^verbatim>\<open>Do\<close>, and taken to have no backing array beyond its length.
\<close>

definition Unmarshal_Runners :: "json \<Rightarrow> Runner ptr slice \<Rightarrow> error + Runner ptr slice" where
  "Unmarshal_Runners v cur =
     map_sum id fst (dec_slice ''[]*Runner'' (dec_ptr dec_Runner Runner_zero) None (cur, []) v)"

text \<open>
  The seven members of the JSON object of a runner, under the names of the tags, and
  the object that holds just them in the order of the fields.
\<close>

definition Runner_members :: "Runner \<Rightarrow> (string \<times> json) list" where
  "Runner_members r =
     [(''id'', JNum (sint (ID r))), (''description'', JStr (Description r)),
      (''active'', JBool (Active r)), (''is_shared'', JBool (IsShared r)),
      (''name'', JStr (Name r)), (''online'', JBool (Online r)),
      (''status'', JStr (Status r))]"

definition Runner_json :: "Runner \<Rightarrow> json" where
  "Runner_json r = JObj (Runner_members r)"

text \<open>
  A well-formed runner object for the runner \<open>r\<close>: the members \<open>kvs\<close> of an object that
  holds the seven members of \<open>r\<close>, in any order and any number of times, and besides
  them only members whose key matches no field of \<^verbatim>\<open>Runner\<close>.
\<close>

definition runner_object :: "Runner \<Rightarrow> (string \<times> json) list \<Rightarrow> bool" where
  "runner_object r kvs \<longleftrightarrow>
     (\<forall>(k, v) \<in> set kvs. find_field Runner_names k = None \<or> (k, v) \<in> set (Runner_members r)) \<and>
     set (Runner_members r) \<subseteq> set kvs"

text \<open>
  \<open>x\<close> has the fields named in \<open>S\<close> as \<open>r\<close> has them: what holds of the struct once
  the members of \<open>r\<close> with the keys \<open>S\<close> have been decoded into it.
\<close>

definition Runner_agree :: "string set \<Rightarrow> Runner \<Rightarrow> Runner \<Rightarrow> bool" where
  "Runner_agree S r x \<longleftrightarrow>
     (''id'' \<in> S \<longrightarrow> ID x = ID r) \<and>
     (''description'' \<in> S \<longrightarrow> Description x = Description r) \<and>
     (''active'' \<in> S \<longrightarrow> Active x = Active r) \<and>
     (''is_shared'' \<in> S \<longrightarrow> IsShared x = IsShared r) \<and>
     (''name'' \<in> S \<longrightarrow> Name x = Name r) \<and>
     (''online'' \<in> S \<longrightarrow> Online x = Online r) \<and>
     (''status'' \<in> S \<longrightarrow> Status x = Status r)"

text \<open>
  \<^verbatim>\<open>RunnersDetails\<close> and its projects. \<open>pt\<close> parses a timestamp (\<^verbatim>\<open>time.Time\<close>'s
  \<^verbatim>\<open>UnmarshalJSON\<close>), \<open>None\<close> when the text is not one.
\<close>

definition Project_names :: "string list" where
  "Project_names = [''id'', ''name'', ''name_with_namespace'', ''path'', ''path_with_namespace'']"

definition Project_zero :: Project where
  "Project_zero =
     \<lparr> ID_p = 0, Name_p = [], NameWithNamespace_p = [], Path_p = [],
       PathWithNamespace_p = [] \<rparr>"

definition Project_assign :: "string \<Rightarrow> json \<Rightarrow> Project \<Rightarrow> error + Project" where
  "Project_assign n v p =
     (if n = ''id'' then map_sum id (\<lambda>x. p\<lparr>ID_p := x\<rparr>) (dec_int n v (ID_p p))
      else if n = ''name'' then map_sum id (\<lambda>x. p\<lparr>Name_p := x\<rparr>) (dec_string n v (Name_p p))
      else if n = ''name_with_namespace'' then
        map_sum id (\<lambda>x. p\<lparr>NameWithNamespace_p := x\<rparr>) (dec_string n v (NameWithNamespace_p p))
      else if n = ''path'' then map_sum id (\<lambda>x. p\<lparr>Path_p := x\<rparr>) (dec_string n v (Path_p p))
      else if n = ''path_with_namespace'' then
        map_sum id (\<lambda>x. p\<lparr>PathWithNamespace_p := x\<rparr>) (dec_string n v (PathWithNamespace_p p))
      else Inr p)"

fun dec_Project :: "json \<Rightarrow> Project \<Rightarrow> error + Project" where
  "dec_Project JNull p = Inr p"
| "dec_Project (JObj kvs) p = dec_members Project_names Project_assign kvs p"
| "dec_Project v p = Inl (cannot_unmarshal ''Project'')"

fun dec_time :: "(string \<Rightarrow> 'tm option) \<Rightarrow> string \<Rightarrow> json \<Rightarrow> error + 'tm ptr" where
  "dec_time pt what JNull = Inr None"
| "dec_time pt what (JStr s) =
     (case pt s of None \<Rightarrow> Inl (cannot_unmarshal what) | Some t \<Rightarrow> Inr (Some t))"
| "dec_time pt what v = Inl (cannot_unmarshal what)"

definition RunnersDetails_names :: "string list" where
  "RunnersDetails_names =
     [''active'', ''architecture'', ''description'', ''id'', ''is_shared'', ''contacted_at'',
      ''name'', ''online'', ''status'', ''platform'', ''projects'', ''Token'', ''revision'',
      ''tag_list'', ''version'', ''access_level'']"

definition RunnersDetails_zero :: "'tm RunnersDetails" where
  "RunnersDetails_zero =
     \<lparr> Active_d = False, Architecture = [], Description_d = [], ID_d = 0, IsShared_d = False,
       ContactedAt = None, Name_d = [], Online_d = False, Status_d = [], Platform = [],
       Projects = None, Token = [], Revision = [], TagList = None, Version = [],
       AccessLevel = [] \<rparr>"

text \<open>
  While an object is decoded into a \<^verbatim>\<open>RunnersDetails\<close>, the decoder's state is the struct
  with the rest of the backing arrays of its two slices, \<open>Projects\<close> and \<open>TagList\<close>.
\<close>

fun RunnersDetails_assign ::
  "(string \<Rightarrow> 'tm option) \<Rightarrow> string \<Rightarrow> json \<Rightarrow>
   'tm RunnersDetails \<times> Project list \<times> string list \<Rightarrow>
   error + 'tm RunnersDetails \<times> Project list \<times> string list" where
  "RunnersDetails_assign pt n v (d, ps, ts) =
     (if n = ''active'' then
        map_sum id (\<lambda>x. (d\<lparr>Active_d := x\<rparr>, ps, ts)) (dec_bool n v (Active_d d))
      else if n = ''architecture'' then
        map_sum id (\<lambda>x. (d\<lparr>Architecture := x\<rparr>, ps, ts)) (dec_string n v (Architecture d))
      else if n = ''description'' then
        map_sum id (\<lambda>x. (d\<lparr>Description_d := x\<rparr>, ps, ts)) (dec_string n v (Description_d d))
      else if n = ''id'' then
        map_sum id (\<lambda>x. (d\<lparr>ID_d := x\<rparr>, ps, ts)) (dec_int n v (ID_d d))
      else if n = ''is_shared'' then
        map_sum id (\<lambda>x. (d\<lparr>IsShared_d := x\<rparr>, ps, ts)) (dec_bool n v (IsShared_d d))
      else if n = ''contacted_at'' then
        map_sum id (\<lambda>x. (d\<lparr>ContactedAt := x\<rparr>, ps, ts)) (dec_time pt n v)
      else if n = ''name'' then
        map_sum id (\<lambda>x. (d\<lparr>Name_d := x\<rparr>, ps, ts)) (dec_string n v (Name_d d))
      else if n = ''online'' then
        map_sum id (\<lambda>x. (d\<lparr>Online_d := x\<rparr>, ps, ts)) (dec_bool n v (Online_d d))
      else if n = ''status'' then
        map_sum id (\<lambda>x. (d\<lparr>Status_d := x\<rparr>, ps, ts)) (dec_string n v (Status_d d))
      else if n = ''platform'' then
        map_sum id (\<lambda>x. (d\<lparr>Platform := x\<rparr>, ps, ts)) (dec_string n v (Platform d))
      else if n = ''projects'' then
        map_sum id (\<lambda>(x, ps'). (d\<lparr>Projects := x\<rparr>, ps', ts))
          (dec_slice n dec_Project Project_zero (Projects d, ps) v)
      else if n = ''Token'' then
        map_sum id (\<lambda>x. (d\<lparr>Token := x\<rparr>, ps, ts)) (dec_string n v (Token d))
      else if n = ''revision'' then
        map_sum id (\<lambda>x. (d\<lparr>Revision := x\<rparr>, ps, ts)) (dec_string n v (Revision d))
      else if n = ''tag_list'' then
        map_sum id (\<lambda>(x, ts'). (d\<lparr>TagList := x\<rparr>, ps, ts'))
          (dec_slice n (dec_string n) [] (TagList d, ts) v)
      else if n = ''version'' then
        map_sum id (\<lambda>x. (d\<lparr>Version := x\<rparr>, ps, ts)) (dec_string n v (Version d))
      else if n = ''access_level'' then
        map_sum id (\<lambda>x. (d\<lparr>AccessLevel := x\<rparr>, ps, ts)) (dec_string n v (AccessLevel d))
      else Inr (d, ps, ts))"

text \<open>
  A value decoded into the struct \<open>d\<close>, whose slices are taken to have no backing array
  beyond their length (as those of a new struct have).
\<close>

fun dec_RunnersDetails ::
  "(string \<Rightarrow> 'tm option) \<Rightarrow> json \<Rightarrow> 'tm RunnersDetails \<Rightarrow> error + 'tm RunnersDetails" where
  "dec_RunnersDetails pt JNull d = Inr d"
| "dec_RunnersDetails pt (JObj kvs) d =
     map_sum id fst (dec_members RunnersDetails_names (RunnersDetails_assign pt) kvs (d, [], []))"
| "dec_RunnersDetails pt v d = Inl (cannot_unmarshal ''RunnersDetails'')"

text \<open>
  Modelled from the spec: the client's \<^verbatim>\<open>Do\<close>, which is not in \<^verbatim>\<open>runners.go\<close>. The spec has
  it "execute the request and decode the response body into a typed result" or, with
  no target, discard the body, and report "transport/HTTP failure (non-2xx status,
  network error, decode error)". \<open>send\<close> is the round trip: it fails with a response (a
  status that is not 2xx) or without one (the network), or gives the response and its
  JSON body; \<open>decode\<close> is \<^verbatim>\<open>json.Unmarshal\<close> at the type of the target. After an error
  the target is given back as it was (what a failed decoding leaves in it is read by
  no endpoint function).
\<close>

definition decoding_client ::
  "(string \<Rightarrow> string \<Rightarrow> 'o option \<Rightarrow> 'f list \<Rightarrow> 'w \<Rightarrow> (error + 'q) \<times> 'w) \<Rightarrow>
   ('q \<Rightarrow> 'w \<Rightarrow> (('r ptr \<times> error) + ('r \<times> json)) \<times> 'w) \<Rightarrow>
   (json \<Rightarrow> 't ptr \<Rightarrow> error + 't ptr) \<Rightarrow>
   ('w, 'o, 'f, 'q, 'r, 't ptr) Client" where
  "decoding_client build send decode =
     \<lparr> NewRequest = build,
       Do = (\<lambda>req v w.
         case send req w of
           (Inl (resp, err), w') \<Rightarrow> (((case v of None \<Rightarrow> None | Some cur \<Rightarrow> cur), resp, Some err), w')
         | (Inr (resp, body), w') \<Rightarrow>
             (case v of
                None \<Rightarrow> ((None, Some resp, None), w')
              | Some cur \<Rightarrow>
                  (case decode body cur of
                     Inl err \<Rightarrow> ((cur, Some resp, Some err), w')
                   | Inr x \<Rightarrow> ((x, Some resp, None), w')))) \<rparr>"

subsection \<open>Sample values\<close>

text \<open>
  A runner and a runner's details (with \<^verbatim>\<open>time.Time\<close> as the text of the timestamp), used
  where a theorem is shown at a concrete input.
\<close>

definition sample_runner :: Runner where
  "sample_runner =
     \<lparr> ID = 7, Description = ''builder'', Active = True, IsShared = False,
       Name = ''gitlab-runner'', Online = True, Status = ''online'' \<rparr>"

definition sample_other_runner :: Runner where
  "sample_other_runner =
     \<lparr> ID = 8, Description = ''tester'', Active = False, IsShared = True,
       Name = [], Online = False, Status = ''paused'' \<rparr>"

text \<open>
  Two objects as a server may write them: \<open>sample_runner\<close> with its members in the order
  of the alphabet and an \<^verbatim>\<open>ip_address\<close>, which \<^verbatim>\<open>Runner\<close> has no field for, and
  \<open>sample_other_runner\<close> with its members in the reverse of the order of the fields and
  the \<^verbatim>\<open>id\<close> given twice.
\<close>

definition sample_runner_object :: "(string \<times> json) list" where
  "sample_runner_object =
     [(''active'', JBool True), (''description'', JStr ''builder''), (''id'', JNum 7),
      (''ip_address'', JStr ''127.0.0.1''), (''is_shared'', JBool False),
      (''name'', JStr ''gitlab-runner''), (''online'', JBool True),
      (''status'', JStr ''online'')]"

definition sample_other_runner_object :: "(string \<times> json) list" where
  "sample_other_runner_object =
     [(''status'', JStr ''paused''), (''online'', JBool False), (''name'', JStr []),
      (''is_shared'', JBool True), (''active'', JBool False),
      (''description'', JStr ''tester''), (''id'', JNum 8), (''id'', JNum 8)]"

definition sample_details :: "string RunnersDetails" where
  "sample_details =
     \<lparr> Active_d = True, Architecture = ''amd64'', Description_d = ''builder'', ID_d = 7,
       IsShared_d = False, ContactedAt = Some ''2016-01-25T16:39:48.066Z'',
       Name_d = ''gitlab-runner'', Online_d = True,
       Status_d = ''online'', Platform = ''linux'', Projects = Some [], Token = ''s3cr3t'',
       Revision = ''abc'', TagList = Some [''go''], Version = ''10.0'',
       AccessLevel = ''ref_protected'' \<rparr>"

section \<open>Properties\<close>

subsection \<open>Decimal text passes \<open>QueryEscape\<close> unchanged\<close>

lemma digit_kept: "n < 10 \<Longrightarrow> \<not> shouldEscape (digits ! n)"
proof -
  assume "n < 10"
  then have "n \<in> {0, 1, 2, 3, 4, 5, 6, 7, 8, 9}" by auto
  then show ?thesis by (auto simp: digits_def shouldEscape_def)
qed

lemma decimal_kept: "c \<in> set (decimal n) \<Longrightarrow> \<not> shouldEscape c"
proof (induction n arbitrary: c rule: decimal.induct)
  case (1 n)
  show ?case
  proof (cases "n < 10")
    case True
    with "1.prems" show ?thesis by (simp add: decimal.simps [of n] digit_kept)
  next
    case False
    with "1.prems" have "c \<in> set (decimal (n div 10)) \<or> c = digits ! (n mod 10)"
      by (auto simp: decimal.simps [of n])
    with False "1.IH" show ?thesis by (auto simp: digit_kept)
  qed
qed

lemma QueryEscape_kept: "(\<And>c. c \<in> set s \<Longrightarrow> \<not> shouldEscape c) \<Longrightarrow> QueryEscape s = s"
  by (induction s) auto

lemma minus_kept: "\<not> shouldEscape CHR ''-''"
  by (simp add: shouldEscape_def)

lemma QueryEscape_Itoa: "QueryEscape (Itoa n) = Itoa n"
  by (rule QueryEscape_kept) (auto simp: Itoa_def minus_kept dest: decimal_kept split: if_splits)

lemmas typed_recorders =
  list_recorder_def details_recorder_def jobs_recorder_def enable_recorder_def
  delete_recorder_def

lemmas eval_defs =
  typed_recorders recorder_def Itoa_def decimal.simps digits_def shouldEscape_def upperhex_def

subsection \<open>Unfolding the endpoint functions\<close>

lemmas endpoint_defs =
  ListRunners_def ListAllRunners_def GetRunnerDetails_def UpdateRunnersDetails_def
  RemoveARunner_def ListRunnerJobs_def ListProjectRunners_def EnableProjectRunner_def
  DisableProjectRunner_def

subsection \<open>Identifier normalisation fails\<close>

text \<open>
  C2. When \<open>parseID\<close> fails on the identifier, each of the seven functions that take one
  returns that error with a nil value and a nil response, and returns the world it was
  given: for any client whatever, no \<open>NewRequest\<close> and no \<open>Do\<close> has run.
  \<open>DisableProjectRunner\<close> takes two identifiers and returns so when either fails (the
  last two lines: a valid project identifier, then a runner identifier that fails).
\<close>

theorem parseID_failure_returns_at_once:
  "parseID rid = Inl err \<Longrightarrow>
     GetRunnerDetails cG rid fs w = ((None, None, Some err), w) \<and>
     UpdateRunnersDetails cU rid optU fs w = ((None, None, Some err), w) \<and>
     RemoveARunner cR rid fs w = ((None, Some err), w) \<and>
     ListRunnerJobs cJ rid optJ fs w = ((None, None, Some err), w) \<and>
     ListProjectRunners cP rid optP fs w = ((None, None, Some err), w) \<and>
     EnableProjectRunner cE rid optE fs w = ((None, None, Some err), w) \<and>
     DisableProjectRunner cD rid other fs w = ((None, Some err), w) \<and>
     DisableProjectRunner cD (IntID n) rid fs w = ((None, Some err), w) \<and>
     DisableProjectRunner cD (StrID s) rid fs w = ((None, Some err), w)"
  by (simp add: endpoint_defs)

text \<open>
  At an identifier that is neither an \<^verbatim>\<open>int\<close> nor a \<^verbatim>\<open>string\<close>, on the recording client:
  the log of calls stays empty.
\<close>

theorem parseID_failure_returns_at_once_witness:
  "parseID (OtherID ''1.5'') = Inl (InvalidID (OtherID ''1.5'')) \<and>
   GetRunnerDetails (details_recorder None (None, None, None))
       (OtherID ''1.5'') [] []
     = ((None, None, Some (InvalidID (OtherID ''1.5''))), []) \<and>
   UpdateRunnersDetails (details_recorder None (None, None, None))
       (OtherID ''1.5'') None [] []
     = ((None, None, Some (InvalidID (OtherID ''1.5''))), []) \<and>
   RemoveARunner (delete_recorder None ((), None, None))
       (OtherID ''1.5'') [] []
     = ((None, Some (InvalidID (OtherID ''1.5''))), []) \<and>
   ListRunnerJobs (jobs_recorder None (None, None, None))
       (OtherID ''1.5'') None [] []
     = ((None, None, Some (InvalidID (OtherID ''1.5''))), []) \<and>
   ListProjectRunners (list_recorder None (None, None, None))
       (OtherID ''1.5'') None [] []
     = ((None, None, Some (InvalidID (OtherID ''1.5''))), []) \<and>
   EnableProjectRunner (enable_recorder None (None, None, None))
       (OtherID ''1.5'') None [] []
     = ((None, None, Some (InvalidID (OtherID ''1.5''))), []) \<and>
   DisableProjectRunner (delete_recorder None ((), None, None))
       (OtherID ''1.5'') (IntID 7) [] []
     = ((None, Some (InvalidID (OtherID ''1.5''))), []) \<and>
   DisableProjectRunner (delete_recorder None ((), None, None))
       (IntID 42) (OtherID ''1.5'') [] []
     = ((None, Some (InvalidID (OtherID ''1.5''))), []) \<and>
   DisableProjectRunner (delete_recorder None ((), None, None))
       (StrID ''group/project'') (OtherID ''1.5'') [] []
     = ((None, Some (InvalidID (OtherID ''1.5''))), [])"
  using parseID_failure_returns_at_once
    [where rid = "OtherID ''1.5''" and err = "InvalidID (OtherID ''1.5'')"
       and w = "[] :: call list" and fs = "[] :: unit list" and n = 42
       and s = "''group/project''" and other = "IntID 7"
       and optU = None and optJ = "None :: (unit, unit) ListRunnersJobsOptions ptr"
       and optP = "None :: unit ListRunnersOptions ptr" and optE = None
       and cG = "details_recorder None (None, None, None)"
       and cU = "details_recorder None (None, None, None)"
       and cR = "delete_recorder None ((), None, None)"
       and cJ = "jobs_recorder None (None, None, None)"
       and cP = "list_recorder None (None, None, None)"
       and cE = "enable_recorder None (None, None, None)"
       and cD = "delete_recorder None ((), None, None)"]
  by simp

subsection \<open>The order of normalisation in \<open>DisableProjectRunner\<close>\<close>

text \<open>
  C9. \<open>DisableProjectRunner\<close> normalises the project identifier first. When that fails
  the function returns its error, whatever the runner identifier is: the result is
  the same for every runner identifier, valid or not.
\<close>

theorem DisableProjectRunner_project_first:
  "parseID pid = Inl err \<Longrightarrow>
     DisableProjectRunner c pid rid fs w = ((None, Some err), w) \<and>
     DisableProjectRunner c pid rid fs w = DisableProjectRunner c pid rid' fs w"
  by (simp add: DisableProjectRunner_def Let_def)

text \<open>Both identifiers invalid: the error is the project identifier's.\<close>

theorem DisableProjectRunner_project_first_witness:
  "parseID (OtherID ''1.5'') = Inl (InvalidID (OtherID ''1.5'')) \<and>
   parseID (OtherID ''true'') = Inl (InvalidID (OtherID ''true'')) \<and>
   DisableProjectRunner (delete_recorder None ((), None, None))
       (OtherID ''1.5'') (OtherID ''true'') [] []
     = ((None, Some (InvalidID (OtherID ''1.5''))), []) \<and>
   DisableProjectRunner (delete_recorder None ((), None, None))
       (OtherID ''1.5'') (OtherID ''true'') [] []
     = DisableProjectRunner (delete_recorder None ((), None, None))
       (OtherID ''1.5'') (IntID 7) [] []"
  using DisableProjectRunner_project_first
    [where pid = "OtherID ''1.5''" and err = "InvalidID (OtherID ''1.5'')"
       and rid = "OtherID ''true''" and rid' = "IntID 7"
       and w = "[] :: call list" and fs = "[] :: unit list"
       and c = "delete_recorder None ((), None, None)"]
  by auto

subsection \<open>The response metadata tells the stage of a failure\<close>

text \<open>
  C10. For every endpoint function and any client: when identifier normalisation fails,
  or when \<open>NewRequest\<close> fails, the function returns a nil response with the error;
  when \<open>Do\<close> returns an error, the function returns the response that \<open>Do\<close> returned
  (nil or not) with that error.
\<close>

theorem response_metadata_by_stage:
  "(\<forall>e w1. NewRequest cL ''GET'' ''runners'' (Some optL) fs w = (Inl e, w1) \<longrightarrow>
      ListRunners cL optL fs w = ((None, None, Some e), w1)) \<and>
   (\<forall>req w1 x resp e w2. NewRequest cL ''GET'' ''runners'' (Some optL) fs w = (Inr req, w1) \<and>
      Do cL req (Some None) w1 = ((x, resp, Some e), w2) \<longrightarrow>
      ListRunners cL optL fs w = ((None, resp, Some e), w2)) \<and>
   (\<forall>e w1. NewRequest cA ''GET'' ''runners/all'' (Some optA) fs w = (Inl e, w1) \<longrightarrow>
      ListAllRunners cA optA fs w = ((None, None, Some e), w1)) \<and>
   (\<forall>req w1 x resp e w2. NewRequest cA ''GET'' ''runners/all'' (Some optA) fs w = (Inr req, w1) \<and>
      Do cA req (Some None) w1 = ((x, resp, Some e), w2) \<longrightarrow>
      ListAllRunners cA optA fs w = ((None, resp, Some e), w2)) \<and>
   (\<forall>e. parseID rid = Inl e \<longrightarrow>
      GetRunnerDetails cG rid fs w = ((None, None, Some e), w)) \<and>
   (\<forall>s e w1. parseID rid = Inr s \<and>
      NewRequest cG ''GET'' (''runners/'' @ s) None fs w = (Inl e, w1) \<longrightarrow>
      GetRunnerDetails cG rid fs w = ((None, None, Some e), w1)) \<and>
   (\<forall>s req w1 x resp e w2. parseID rid = Inr s \<and>
      NewRequest cG ''GET'' (''runners/'' @ s) None fs w = (Inr req, w1) \<and>
      Do cG req (Some None) w1 = ((x, resp, Some e), w2) \<longrightarrow>
      GetRunnerDetails cG rid fs w = ((None, resp, Some e), w2)) \<and>
   (\<forall>e. parseID rid = Inl e \<longrightarrow>
      UpdateRunnersDetails cU rid optU fs w = ((None, None, Some e), w)) \<and>
   (\<forall>s e w1. parseID rid = Inr s \<and>
      NewRequest cU ''PUT'' (''runners/'' @ s) (Some optU) fs w = (Inl e, w1) \<longrightarrow>
      UpdateRunnersDetails cU rid optU fs w = ((None, None, Some e), w1)) \<and>
   (\<forall>s req w1 x resp e w2. parseID rid = Inr s \<and>
      NewRequest cU ''PUT'' (''runners/'' @ s) (Some optU) fs w = (Inr req, w1) \<and>
      Do cU req (Some None) w1 = ((x, resp, Some e), w2) \<longrightarrow>
      UpdateRunnersDetails cU rid optU fs w = ((None, resp, Some e), w2)) \<and>
   (\<forall>e. parseID rid = Inl e \<longrightarrow>
      RemoveARunner cR rid fs w = ((None, Some e), w)) \<and>
   (\<forall>s e w1. parseID rid = Inr s \<and>
      NewRequest cR ''DELETE'' (''runners/'' @ s) None fs w = (Inl e, w1) \<longrightarrow>
      RemoveARunner cR rid fs w = ((None, Some e), w1)) \<and>
   (\<forall>s req w1 x resp e w2. parseID rid = Inr s \<and>
      NewRequest cR ''DELETE'' (''runners/'' @ s) None fs w = (Inr req, w1) \<and>
      Do cR req None w1 = ((x, resp, Some e), w2) \<longrightarrow>
      RemoveARunner cR rid fs w = ((resp, Some e), w2)) \<and>
   (\<forall>e. parseID rid = Inl e \<longrightarrow>
      ListRunnerJobs cJ rid optJ fs w = ((None, None, Some e), w)) \<and>
   (\<forall>s e w1. parseID rid = Inr s \<and>
      NewRequest cJ ''GET'' (''runners/'' @ s @ ''/jobs'') (Some optJ) fs w = (Inl e, w1) \<longrightarrow>
      ListRunnerJobs cJ rid optJ fs w = ((None, None, Some e), w1)) \<and>
   (\<forall>s req w1 x resp e w2. parseID rid = Inr s \<and>
      NewRequest cJ ''GET'' (''runners/'' @ s @ ''/jobs'') (Some optJ) fs w = (Inr req, w1) \<and>
      Do cJ req (Some None) w1 = ((x, resp, Some e), w2) \<longrightarrow>
      ListRunnerJobs cJ rid optJ fs w = ((None, resp, Some e), w2)) \<and>
   (\<forall>e. parseID pid = Inl e \<longrightarrow>
      ListProjectRunners cP pid optP fs w = ((None, None, Some e), w)) \<and>
   (\<forall>s e w1. parseID pid = Inr s \<and>
      NewRequest cP ''GET'' (''projects/'' @ QueryEscape s @ ''/runners'') (Some optP) fs w = (Inl e, w1) \<longrightarrow>
      ListProjectRunners cP pid optP fs w = ((None, None, Some e), w1)) \<and>
   (\<forall>s req w1 x resp e w2. parseID pid = Inr s \<and>
      NewRequest cP ''GET'' (''projects/'' @ QueryEscape s @ ''/runners'') (Some optP) fs w = (Inr req, w1) \<and>
      Do cP req (Some None) w1 = ((x, resp, Some e), w2) \<longrightarrow>
      ListProjectRunners cP pid optP fs w = ((None, resp, Some e), w2)) \<and>
   (\<forall>e. parseID pid = Inl e \<longrightarrow>
      EnableProjectRunner cE pid optE fs w = ((None, None, Some e), w)) \<and>
   (\<forall>s e w1. parseID pid = Inr s \<and>
      NewRequest cE ''POST'' (''projects/'' @ QueryEscape s @ ''/runners'') (Some optE) fs w = (Inl e, w1) \<longrightarrow>
      EnableProjectRunner cE pid optE fs w = ((None, None, Some e), w1)) \<and>
   (\<forall>s req w1 x resp e w2. parseID pid = Inr s \<and>
      NewRequest cE ''POST'' (''projects/'' @ QueryEscape s @ ''/runners'') (Some optE) fs w = (Inr req, w1) \<and>
      Do cE req (Some None) w1 = ((x, resp, Some e), w2) \<longrightarrow>
      EnableProjectRunner cE pid optE fs w = ((None, resp, Some e), w2)) \<and>
   (\<forall>e. parseID pid = Inl e \<longrightarrow>
      DisableProjectRunner cD pid rid fs w = ((None, Some e), w)) \<and>
   (\<forall>s e. parseID pid = Inr s \<and> parseID rid = Inl e \<longrightarrow>
      DisableProjectRunner cD pid rid fs w = ((None, Some e), w)) \<and>
   (\<forall>s t e w1. parseID pid = Inr s \<and> parseID rid = Inr t \<and>
      NewRequest cD ''DELETE'' (''projects/'' @ QueryEscape s @ ''/runners/'' @ QueryEscape t) None fs w = (Inl e, w1) \<longrightarrow>
      DisableProjectRunner cD pid rid fs w = ((None, Some e), w1)) \<and>
   (\<forall>s t req w1 x resp e w2. parseID pid = Inr s \<and> parseID rid = Inr t \<and>
      NewRequest cD ''DELETE'' (''projects/'' @ QueryEscape s @ ''/runners/'' @ QueryEscape t) None fs w = (Inr req, w1) \<and>
      Do cD req None w1 = ((x, resp, Some e), w2) \<longrightarrow>
      DisableProjectRunner cD pid rid fs w = ((resp, Some e), w2))"
  by (intro conjI allI impI; (elim conjE)?; simp add: endpoint_defs Let_def)

text \<open>
  On the recording client: an identifier of another type, a \<open>NewRequest\<close> that fails,
  and a \<open>Do\<close> that returns the response \<open>''404''\<close> with an error.
\<close>

theorem response_metadata_by_stage_witness:
  "GetRunnerDetails (details_recorder (Some (ClientError ''bad'')) (None, None, None))
       (OtherID ''1.5'') [] []
     = ((None, None, Some (InvalidID (OtherID ''1.5''))), []) \<and>
   ListRunners (list_recorder (Some (ClientError ''bad'')) (Some [], None, None))
       None [] []
     = ((None, None, Some (ClientError ''bad'')), [NewRequestCall ''GET'' ''runners'' False]) \<and>
   DisableProjectRunner (delete_recorder (Some (ClientError ''bad'')) ((), None, None))
       (IntID 42) (IntID 7) [] []
     = ((None, Some (ClientError ''bad'')), [NewRequestCall ''DELETE'' ''projects/42/runners/7'' True]) \<and>
   ListRunners (list_recorder None (Some [], Some ''404'', Some (ClientError ''404'')))
       None [] []
     = ((None, Some ''404'', Some (ClientError ''404'')),
        [NewRequestCall ''GET'' ''runners'' False, DoCall ''GET'' ''runners'' False]) \<and>
   RemoveARunner (delete_recorder None ((), Some ''404'', Some (ClientError ''404'')))
       (IntID 7) [] []
     = ((Some ''404'', Some (ClientError ''404'')),
        [NewRequestCall ''DELETE'' ''runners/7'' True, DoCall ''DELETE'' ''runners/7'' True])"
  using response_metadata_by_stage
    [where cL = "list_recorder (Some (ClientError ''bad'')) (Some [], None, None)"
       and optL = "None :: unit ListRunnersOptions ptr"
       and cA = "list_recorder (Some (ClientError ''bad'')) (Some [], None, None)"
       and optA = "None :: unit ListRunnersOptions ptr"
       and cG = "details_recorder (Some (ClientError ''bad'')) (None, None, None)"
       and cU = "details_recorder (Some (ClientError ''bad'')) (None, None, None)"
       and optU = "None"
       and cR = "delete_recorder (Some (ClientError ''bad'')) ((), None, None)"
       and cJ = "jobs_recorder (Some (ClientError ''bad'')) (Some [], None, None)"
       and optJ = "None :: (unit, unit) ListRunnersJobsOptions ptr"
       and cP = "list_recorder (Some (ClientError ''bad'')) (Some [], None, None)"
       and optP = "None :: unit ListRunnersOptions ptr"
       and cE = "enable_recorder (Some (ClientError ''bad'')) (None, None, None)"
       and optE = "None"
       and cD = "delete_recorder (Some (ClientError ''bad'')) ((), None, None)"
       and rid = "OtherID ''1.5''"
       and pid = "IntID 42"
       and fs = "[] :: unit list"
       and w = "[] :: call list"]
    response_metadata_by_stage
    [where cL = "list_recorder (Some (ClientError ''bad'')) (Some [], None, None)"
       and optL = "None :: unit ListRunnersOptions ptr"
       and cA = "list_recorder (Some (ClientError ''bad'')) (Some [], None, None)"
       and optA = "None :: unit ListRunnersOptions ptr"
       and cG = "details_recorder (Some (ClientError ''bad'')) (None, None, None)"
       and cU = "details_recorder (Some (ClientError ''bad'')) (None, None, None)"
       and optU = "None"
       and cR = "delete_recorder (Some (ClientError ''bad'')) ((), None, None)"
       and cJ = "jobs_recorder (Some (ClientError ''bad'')) (Some [], None, None)"
       and optJ = "None :: (unit, unit) ListRunnersJobsOptions ptr"
       and cP = "list_recorder (Some (ClientError ''bad'')) (Some [], None, None)"
       and optP = "None :: unit ListRunnersOptions ptr"
       and cE = "enable_recorder (Some (ClientError ''bad'')) (None, None, None)"
       and optE = "None"
       and cD = "delete_recorder (Some (ClientError ''bad'')) ((), None, None)"
       and rid = "IntID 7"
       and pid = "IntID 42"
       and fs = "[] :: unit list"
       and w = "[] :: call list"]
    response_metadata_by_stage
    [where cL = "list_recorder None (Some [], Some ''404'', Some (ClientError ''404''))"
       and optL = "None :: unit ListRunnersOptions ptr"
       and cA = "list_recorder None (Some [], Some ''404'', Some (ClientError ''404''))"
       and optA = "None :: unit ListRunnersOptions ptr"
       and cG = "details_recorder None (None, Some ''404'', Some (ClientError ''404''))"
       and cU = "details_recorder None (None, Some ''404'', Some (ClientError ''404''))"
       and optU = "None"
       and cR = "delete_recorder None ((), Some ''404'', Some (ClientError ''404''))"
       and cJ = "jobs_recorder None (Some [], Some ''404'', Some (ClientError ''404''))"
       and optJ = "None :: (unit, unit) ListRunnersJobsOptions ptr"
       and cP = "list_recorder None (Some [], Some ''404'', Some (ClientError ''404''))"
       and optP = "None :: unit ListRunnersOptions ptr"
       and cE = "enable_recorder None (None, Some ''404'', Some (ClientError ''404''))"
       and optE = "None"
       and cD = "delete_recorder None ((), Some ''404'', Some (ClientError ''404''))"
       and rid = "IntID 7"
       and pid = "IntID 42"
       and fs = "[] :: unit list"
       and w = "[] :: call list"]
  by (simp add: eval_defs)


subsection \<open>All or nothing\<close>

lemma ListRunners_nil_on_error:
  "(case ListRunners c opt fs w of ((v, r, e), w') \<Rightarrow> e \<noteq> None \<longrightarrow> v = None)"
  by (simp add: ListRunners_def Let_def split: sum.split prod.split option.split)

lemma ListAllRunners_nil_on_error:
  "(case ListAllRunners c opt fs w of ((v, r, e), w') \<Rightarrow> e \<noteq> None \<longrightarrow> v = None)"
  by (simp add: ListAllRunners_def Let_def split: sum.split prod.split option.split)

lemma GetRunnerDetails_nil_on_error:
  "(case GetRunnerDetails c rid fs w of ((v, r, e), w') \<Rightarrow> e \<noteq> None \<longrightarrow> v = None)"
  by (simp add: GetRunnerDetails_def Let_def split: sum.split prod.split option.split)

lemma UpdateRunnersDetails_nil_on_error:
  "(case UpdateRunnersDetails c rid opt fs w of ((v, r, e), w') \<Rightarrow> e \<noteq> None \<longrightarrow> v = None)"
  by (simp add: UpdateRunnersDetails_def Let_def split: sum.split prod.split option.split)

lemma ListRunnerJobs_nil_on_error:
  "(case ListRunnerJobs c rid opt fs w of ((v, r, e), w') \<Rightarrow> e \<noteq> None \<longrightarrow> v = None)"
  by (simp add: ListRunnerJobs_def Let_def split: sum.split prod.split option.split)

lemma ListProjectRunners_nil_on_error:
  "(case ListProjectRunners c pid opt fs w of ((v, r, e), w') \<Rightarrow> e \<noteq> None \<longrightarrow> v = None)"
  by (simp add: ListProjectRunners_def Let_def split: sum.split prod.split option.split)

lemma EnableProjectRunner_nil_on_error:
  "(case EnableProjectRunner c pid opt fs w of ((v, r, e), w') \<Rightarrow> e \<noteq> None \<longrightarrow> v = None)"
  by (simp add: EnableProjectRunner_def Let_def split: sum.split prod.split option.split)


text \<open>
  C6. Whenever one of the seven functions with a decoded result returns an error, the
  decoded result it returns is nil, for any client: also when \<open>Do\<close> had already filled
  the target. (The two delete-style functions have no decoded result.)
\<close>

theorem error_returns_nil_value:
  "(case ListRunners cL optL fs w of ((v, r, e), w') \<Rightarrow> e \<noteq> None \<longrightarrow> v = None) \<and>
   (case ListAllRunners cA optA fs w of ((v, r, e), w') \<Rightarrow> e \<noteq> None \<longrightarrow> v = None) \<and>
   (case GetRunnerDetails cG rid fs w of ((v, r, e), w') \<Rightarrow> e \<noteq> None \<longrightarrow> v = None) \<and>
   (case UpdateRunnersDetails cU rid optU fs w of ((v, r, e), w') \<Rightarrow> e \<noteq> None \<longrightarrow> v = None) \<and>
   (case ListRunnerJobs cJ rid optJ fs w of ((v, r, e), w') \<Rightarrow> e \<noteq> None \<longrightarrow> v = None) \<and>
   (case ListProjectRunners cP pid optP fs w of ((v, r, e), w') \<Rightarrow> e \<noteq> None \<longrightarrow> v = None) \<and>
   (case EnableProjectRunner cE pid optE fs w of ((v, r, e), w') \<Rightarrow> e \<noteq> None \<longrightarrow> v = None)"
  by (intro conjI ListRunners_nil_on_error ListAllRunners_nil_on_error
      GetRunnerDetails_nil_on_error UpdateRunnersDetails_nil_on_error
      ListRunnerJobs_nil_on_error ListProjectRunners_nil_on_error
      EnableProjectRunner_nil_on_error)

text \<open>
  On a recording client whose \<open>Do\<close> leaves a value in the target and returns the
  response \<open>''500''\<close> with an error: the value is dropped, the response and the error
  are returned.
\<close>

theorem error_returns_nil_value_witness:
  "fst (ListRunners (list_recorder None (Some [None], Some ''500'', Some (ClientError ''500'')))
        None [] []) =
     (None, Some ''500'', Some (ClientError ''500'')) \<and>
   fst (ListAllRunners (list_recorder None (Some [None], Some ''500'', Some (ClientError ''500'')))
        None [] []) =
     (None, Some ''500'', Some (ClientError ''500'')) \<and>
   fst (GetRunnerDetails (details_recorder None (Some sample_details, Some ''500'', Some (ClientError ''500'')))
        (IntID 7) [] []) =
     (None, Some ''500'', Some (ClientError ''500'')) \<and>
   fst (UpdateRunnersDetails (details_recorder None (Some sample_details, Some ''500'', Some (ClientError ''500'')))
        (IntID 7) None [] []) =
     (None, Some ''500'', Some (ClientError ''500'')) \<and>
   fst (ListRunnerJobs (jobs_recorder None (Some [None], Some ''500'', Some (ClientError ''500'')))
        (IntID 7) None [] []) =
     (None, Some ''500'', Some (ClientError ''500'')) \<and>
   fst (ListProjectRunners (list_recorder None (Some [None], Some ''500'', Some (ClientError ''500'')))
        (IntID 42) None [] []) =
     (None, Some ''500'', Some (ClientError ''500'')) \<and>
   fst (EnableProjectRunner (enable_recorder None (Some sample_runner, Some ''500'', Some (ClientError ''500'')))
        (IntID 42) None [] []) =
     (None, Some ''500'', Some (ClientError ''500''))"
  using error_returns_nil_value
    [where cL = "list_recorder None (Some [None], Some ''500'', Some (ClientError ''500''))"
       and optL = "None :: unit ListRunnersOptions ptr"
       and cA = "list_recorder None (Some [None], Some ''500'', Some (ClientError ''500''))"
       and optA = "None :: unit ListRunnersOptions ptr"
       and cG = "details_recorder None (Some sample_details, Some ''500'', Some (ClientError ''500''))"
       and cU = "details_recorder None (Some sample_details, Some ''500'', Some (ClientError ''500''))"
       and optU = "None"
       and cJ = "jobs_recorder None (Some [None], Some ''500'', Some (ClientError ''500''))"
       and optJ = "None :: (unit, unit) ListRunnersJobsOptions ptr"
       and cP = "list_recorder None (Some [None], Some ''500'', Some (ClientError ''500''))"
       and optP = "None :: unit ListRunnersOptions ptr"
       and cE = "enable_recorder None (Some sample_runner, Some ''500'', Some (ClientError ''500''))"
       and optE = "None"
       and rid = "IntID 7"
       and pid = "IntID 42"
       and fs = "[] :: unit list"
       and w = "[] :: call list"]
  by (simp add: endpoint_defs Let_def eval_defs)

subsection \<open>The delete-style functions\<close>

text \<open>
  C5. \<open>RemoveARunner\<close> and \<open>DisableProjectRunner\<close> return a response and an error and
  nothing else. Once the request is built they call \<open>Do\<close> with the nil target, so that
  no body is decoded, and return its response and its error as they are.
\<close>

theorem delete_calls_return_what_Do_returns:
  "(\<forall>s req w1. parseID rid = Inr s \<and>
      NewRequest cR ''DELETE'' (''runners/'' @ s) None fs w = (Inr req, w1) \<longrightarrow>
      RemoveARunner cR rid fs w =
        (case Do cR req None w1 of ((x, resp, err), w2) \<Rightarrow> ((resp, err), w2))) \<and>
   (\<forall>s t req w1. parseID pid = Inr s \<and> parseID rid = Inr t \<and>
      NewRequest cD ''DELETE'' (''projects/'' @ QueryEscape s @ ''/runners/'' @ QueryEscape t) None fs w
        = (Inr req, w1) \<longrightarrow>
      DisableProjectRunner cD pid rid fs w =
        (case Do cD req None w1 of ((x, resp, err), w2) \<Rightarrow> ((resp, err), w2)))"
  by (simp add: RemoveARunner_def DisableProjectRunner_def Let_def split: prod.split)

text \<open>
  On the recording client: both calls are logged with a nil \<open>opt\<close> and a nil target, and
  the response \<open>''204''\<close> comes back.
\<close>

theorem delete_calls_return_what_Do_returns_witness:
  "RemoveARunner (delete_recorder None ((), Some ''204'', None))
       (IntID 7) [] [] =
     ((Some ''204'', None),
      [NewRequestCall ''DELETE'' ''runners/7'' True, DoCall ''DELETE'' ''runners/7'' True]) \<and>
   DisableProjectRunner (delete_recorder None ((), Some ''204'', None))
       (IntID 42) (IntID 7) [] [] =
     ((Some ''204'', None),
      [NewRequestCall ''DELETE'' ''projects/42/runners/7'' True,
       DoCall ''DELETE'' ''projects/42/runners/7'' True])"
  using delete_calls_return_what_Do_returns
    [where cR = "delete_recorder None ((), Some ''204'', None)"
       and cD = "delete_recorder None ((), Some ''204'', None)"
       and rid = "IntID 7"
       and pid = "IntID 42"
       and fs = "[] :: unit list"
       and w = "[] :: call list"]
  by (simp add: eval_defs)

subsection \<open>Methods and paths\<close>

text \<open>
  The calls each function makes on the recording client, when its \<open>NewRequest\<close>
  succeeds: none when an identifier is refused, else one \<open>NewRequest\<close> and one \<open>Do\<close>.
\<close>

lemma ListRunners_calls:
  "snd (ListRunners (recorder None d) opt fs []) =
     [NewRequestCall ''GET'' ''runners'' False,
      DoCall ''GET'' ''runners'' False]"
  by (simp add: ListRunners_def recorder_def split: prod.split option.split)

lemma ListAllRunners_calls:
  "snd (ListAllRunners (recorder None d) opt fs []) =
     [NewRequestCall ''GET'' ''runners/all'' False,
      DoCall ''GET'' ''runners/all'' False]"
  by (simp add: ListAllRunners_def recorder_def split: prod.split option.split)

lemma GetRunnerDetails_calls:
  "snd (GetRunnerDetails (recorder None d) rid fs []) =
     (case parseID rid of
        Inl e \<Rightarrow> []
      | Inr s \<Rightarrow>
          [NewRequestCall ''GET'' (''runners/'' @ s) True,
           DoCall ''GET'' (''runners/'' @ s) False])"
  by (simp add: GetRunnerDetails_def Let_def recorder_def split: sum.split prod.split option.split)

lemma UpdateRunnersDetails_calls:
  "snd (UpdateRunnersDetails (recorder None d) rid opt fs []) =
     (case parseID rid of
        Inl e \<Rightarrow> []
      | Inr s \<Rightarrow>
          [NewRequestCall ''PUT'' (''runners/'' @ s) False,
           DoCall ''PUT'' (''runners/'' @ s) False])"
  by (simp add: UpdateRunnersDetails_def Let_def recorder_def split: sum.split prod.split option.split)

lemma RemoveARunner_calls:
  "snd (RemoveARunner (recorder None d) rid fs []) =
     (case parseID rid of
        Inl e \<Rightarrow> []
      | Inr s \<Rightarrow>
          [NewRequestCall ''DELETE'' (''runners/'' @ s) True,
           DoCall ''DELETE'' (''runners/'' @ s) True])"
  by (simp add: RemoveARunner_def Let_def recorder_def split: sum.split prod.split option.split)

lemma ListRunnerJobs_calls:
  "snd (ListRunnerJobs (recorder None d) rid opt fs []) =
     (case parseID rid of
        Inl e \<Rightarrow> []
      | Inr s \<Rightarrow>
          [NewRequestCall ''GET'' (''runners/'' @ s @ ''/jobs'') False,
           DoCall ''GET'' (''runners/'' @ s @ ''/jobs'') False])"
  by (simp add: ListRunnerJobs_def Let_def recorder_def split: sum.split prod.split option.split)

lemma ListProjectRunners_calls:
  "snd (ListProjectRunners (recorder None d) pid opt fs []) =
     (case parseID pid of
        Inl e \<Rightarrow> []
      | Inr s \<Rightarrow>
          [NewRequestCall ''GET'' (''projects/'' @ QueryEscape s @ ''/runners'') False,
           DoCall ''GET'' (''projects/'' @ QueryEscape s @ ''/runners'') False])"
  by (simp add: ListProjectRunners_def Let_def recorder_def split: sum.split prod.split option.split)

lemma EnableProjectRunner_calls:
  "snd (EnableProjectRunner (recorder None d) pid opt fs []) =
     (case parseID pid of
        Inl e \<Rightarrow> []
      | Inr s \<Rightarrow>
          [NewRequestCall ''POST'' (''projects/'' @ QueryEscape s @ ''/runners'') False,
           DoCall ''POST'' (''projects/'' @ QueryEscape s @ ''/runners'') False])"
  by (simp add: EnableProjectRunner_def Let_def recorder_def split: sum.split prod.split option.split)

lemma DisableProjectRunner_calls:
  "snd (DisableProjectRunner (recorder None d) pid rid fs []) =
     (case parseID pid of
        Inl e \<Rightarrow> []
      | Inr s \<Rightarrow>
          (case parseID rid of
             Inl e \<Rightarrow> []
           | Inr t \<Rightarrow>
               [NewRequestCall ''DELETE'' (''projects/'' @ QueryEscape s @ ''/runners/'' @ QueryEscape t) True,
                DoCall ''DELETE'' (''projects/'' @ QueryEscape s @ ''/runners/'' @ QueryEscape t) True]))"
  by (simp add: DisableProjectRunner_def Let_def recorder_def split: sum.split prod.split option.split)

lemmas recorded_calls =
  ListRunners_calls ListAllRunners_calls GetRunnerDetails_calls
  UpdateRunnersDetails_calls RemoveARunner_calls ListRunnerJobs_calls
  ListProjectRunners_calls EnableProjectRunner_calls DisableProjectRunner_calls

lemma Itoa_42: "Itoa 42 = ''42''"
  by (simp add: Itoa_def decimal.simps digits_def)

lemma Itoa_7: "Itoa 7 = ''7''"
  by (simp add: Itoa_def decimal.simps digits_def)

text \<open>
  C3. The method and the relative path that each endpoint function hands to
  \<open>NewRequest\<close> (and the request that it then hands to \<open>Do\<close>) are those of the table of
  endpoints. \<open>{id}\<close> is the normalised identifier: as it is in the \<^verbatim>\<open>runners/...\<close> paths,
  through \<open>QueryEscape\<close> in the \<^verbatim>\<open>projects/...\<close> paths, and in both the decimal text of a
  numeric identifier. Project 42 and runner 7 give \<^verbatim>\<open>projects/42/runners/7\<close>.
\<close>

theorem request_method_and_path:
  "snd (ListRunners (recorder None dL) optL fs []) =
      [NewRequestCall ''GET'' ''runners'' False,
       DoCall ''GET'' ''runners'' False] \<and>
   snd (ListAllRunners (recorder None dA) optA fs []) =
      [NewRequestCall ''GET'' ''runners/all'' False,
       DoCall ''GET'' ''runners/all'' False] \<and>
   (\<forall>s. parseID rid = Inr s \<longrightarrow>
      snd (GetRunnerDetails (recorder None dG) rid fs []) =
      [NewRequestCall ''GET'' (''runners/'' @ s) True,
       DoCall ''GET'' (''runners/'' @ s) False]) \<and>
   snd (GetRunnerDetails (recorder None dG) (IntID n) fs []) =
      [NewRequestCall ''GET'' (''runners/'' @ Itoa n) True,
       DoCall ''GET'' (''runners/'' @ Itoa n) False] \<and>
   (\<forall>s. parseID rid = Inr s \<longrightarrow>
      snd (UpdateRunnersDetails (recorder None dU) rid optU fs []) =
      [NewRequestCall ''PUT'' (''runners/'' @ s) False,
       DoCall ''PUT'' (''runners/'' @ s) False]) \<and>
   snd (UpdateRunnersDetails (recorder None dU) (IntID n) optU fs []) =
      [NewRequestCall ''PUT'' (''runners/'' @ Itoa n) False,
       DoCall ''PUT'' (''runners/'' @ Itoa n) False] \<and>
   (\<forall>s. parseID rid = Inr s \<longrightarrow>
      snd (RemoveARunner (recorder None dR) rid fs []) =
      [NewRequestCall ''DELETE'' (''runners/'' @ s) True,
       DoCall ''DELETE'' (''runners/'' @ s) True]) \<and>
   snd (RemoveARunner (recorder None dR) (IntID n) fs []) =
      [NewRequestCall ''DELETE'' (''runners/'' @ Itoa n) True,
       DoCall ''DELETE'' (''runners/'' @ Itoa n) True] \<and>
   (\<forall>s. parseID rid = Inr s \<longrightarrow>
      snd (ListRunnerJobs (recorder None dJ) rid optJ fs []) =
      [NewRequestCall ''GET'' (''runners/'' @ s @ ''/jobs'') False,
       DoCall ''GET'' (''runners/'' @ s @ ''/jobs'') False]) \<and>
   snd (ListRunnerJobs (recorder None dJ) (IntID n) optJ fs []) =
      [NewRequestCall ''GET'' (''runners/'' @ Itoa n @ ''/jobs'') False,
       DoCall ''GET'' (''runners/'' @ Itoa n @ ''/jobs'') False] \<and>
   (\<forall>s. parseID pid = Inr s \<longrightarrow>
      snd (ListProjectRunners (recorder None dP) pid optP fs []) =
      [NewRequestCall ''GET'' (''projects/'' @ QueryEscape s @ ''/runners'') False,
       DoCall ''GET'' (''projects/'' @ QueryEscape s @ ''/runners'') False]) \<and>
   snd (ListProjectRunners (recorder None dP) (IntID n) optP fs []) =
      [NewRequestCall ''GET'' (''projects/'' @ Itoa n @ ''/runners'') False,
       DoCall ''GET'' (''projects/'' @ Itoa n @ ''/runners'') False] \<and>
   (\<forall>s. parseID pid = Inr s \<longrightarrow>
      snd (EnableProjectRunner (recorder None dE) pid optE fs []) =
      [NewRequestCall ''POST'' (''projects/'' @ QueryEscape s @ ''/runners'') False,
       DoCall ''POST'' (''projects/'' @ QueryEscape s @ ''/runners'') False]) \<and>
   snd (EnableProjectRunner (recorder None dE) (IntID n) optE fs []) =
      [NewRequestCall ''POST'' (''projects/'' @ Itoa n @ ''/runners'') False,
       DoCall ''POST'' (''projects/'' @ Itoa n @ ''/runners'') False] \<and>
   (\<forall>s t. parseID pid = Inr s \<and> parseID rid = Inr t \<longrightarrow>
      snd (DisableProjectRunner (recorder None dD) pid rid fs []) =
      [NewRequestCall ''DELETE'' (''projects/'' @ QueryEscape s @ ''/runners/'' @ QueryEscape t) True,
       DoCall ''DELETE'' (''projects/'' @ QueryEscape s @ ''/runners/'' @ QueryEscape t) True]) \<and>
   snd (DisableProjectRunner (recorder None dD) (IntID n) (IntID k) fs []) =
      [NewRequestCall ''DELETE'' (''projects/'' @ Itoa n @ ''/runners/'' @ Itoa k) True,
       DoCall ''DELETE'' (''projects/'' @ Itoa n @ ''/runners/'' @ Itoa k) True] \<and>
   snd (DisableProjectRunner (recorder None dD) (IntID 42) (IntID 7) fs []) =
      [NewRequestCall ''DELETE'' ''projects/42/runners/7'' True,
       DoCall ''DELETE'' ''projects/42/runners/7'' True]"
  by (simp add: recorded_calls QueryEscape_Itoa Itoa_42 Itoa_7 shouldEscape_def)

text \<open>With string identifiers, one of them holding a slash, and with a numeric one.\<close>

theorem request_method_and_path_witness:
  "parseID (StrID ''runner-7'') = Inr ''runner-7'' \<and>
   parseID (StrID ''group/project'') = Inr ''group/project'' \<and>
   snd (ListRunners (list_recorder None (None, None, None)) None [] []) =
      [NewRequestCall ''GET'' ''runners'' False, DoCall ''GET'' ''runners'' False] \<and>
   snd (ListRunnerJobs (jobs_recorder None (None, None, None)) (StrID ''runner-7'')
        None [] []) =
      [NewRequestCall ''GET'' ''runners/runner-7/jobs'' False,
       DoCall ''GET'' ''runners/runner-7/jobs'' False] \<and>
   snd (EnableProjectRunner (enable_recorder None (None, None, None)) (StrID ''group/project'') None [] []) =
      [NewRequestCall ''POST'' ''projects/group%2Fproject/runners'' False,
       DoCall ''POST'' ''projects/group%2Fproject/runners'' False] \<and>
   snd (UpdateRunnersDetails (details_recorder None (None, None, None)) (IntID 42) None [] []) =
      [NewRequestCall ''PUT'' ''runners/42'' False, DoCall ''PUT'' ''runners/42'' False]"
  using request_method_and_path
    [where dL = "(None :: Runner ptr slice, None :: string ptr, None)"
       and optL = "None :: unit ListRunnersOptions ptr"
       and dA = "(None :: Runner ptr slice, None :: string ptr, None)"
       and optA = "None :: unit ListRunnersOptions ptr"
       and dG = "(None :: string RunnersDetails ptr, None :: string ptr, None)"
       and dU = "(None :: string RunnersDetails ptr, None :: string ptr, None)"
       and optU = "None"
       and dR = "((), None :: string ptr, None)"
       and dJ = "(None :: unit ptr slice, None :: string ptr, None)"
       and optJ = "None :: (unit, unit) ListRunnersJobsOptions ptr"
       and dP = "(None :: Runner ptr slice, None :: string ptr, None)"
       and optP = "None :: unit ListRunnersOptions ptr"
       and dE = "(None :: Runner ptr, None :: string ptr, None)"
       and optE = "None"
       and dD = "((), None :: string ptr, None)"
       and rid = "StrID ''runner-7''"
       and pid = "StrID ''group/project''"
       and n = "42"
       and k = "7"
       and fs = "[] :: unit list"]
  by (auto simp: typed_recorders Itoa_42 Itoa_7 shouldEscape_def upperhex_def)

subsection \<open>String identifiers with reserved characters\<close>

text \<open>
  C1. The identifier \<^verbatim>\<open>a/b\<close> reaches the path unescaped in \<open>GetRunnerDetails\<close>,
  \<open>UpdateRunnersDetails\<close>, \<open>RemoveARunner\<close> and \<open>ListRunnerJobs\<close>, which interpolate the
  result of \<open>parseID\<close> as it is; \<open>ListProjectRunners\<close>, \<open>EnableProjectRunner\<close> and
  \<open>DisableProjectRunner\<close> pass it through \<open>QueryEscape\<close> and give \<^verbatim>\<open>a%2Fb\<close>.
\<close>

theorem runner_paths_not_escaped:
  "snd (GetRunnerDetails (details_recorder None (None, None, None)) (StrID ''a/b'') [] []) =
      [NewRequestCall ''GET'' ''runners/a/b'' True, DoCall ''GET'' ''runners/a/b'' False] \<and>
   snd (UpdateRunnersDetails (details_recorder None (None, None, None)) (StrID ''a/b'') None [] []) =
      [NewRequestCall ''PUT'' ''runners/a/b'' False, DoCall ''PUT'' ''runners/a/b'' False] \<and>
   snd (RemoveARunner (delete_recorder None ((), None, None)) (StrID ''a/b'') [] []) =
      [NewRequestCall ''DELETE'' ''runners/a/b'' True, DoCall ''DELETE'' ''runners/a/b'' True] \<and>
   snd (ListRunnerJobs (jobs_recorder None (None, None, None)) (StrID ''a/b'')
        None [] []) =
      [NewRequestCall ''GET'' ''runners/a/b/jobs'' False, DoCall ''GET'' ''runners/a/b/jobs'' False] \<and>
   snd (ListProjectRunners (list_recorder None (None, None, None)) (StrID ''a/b'')
        None [] []) =
      [NewRequestCall ''GET'' ''projects/a%2Fb/runners'' False,
       DoCall ''GET'' ''projects/a%2Fb/runners'' False] \<and>
   snd (EnableProjectRunner (enable_recorder None (None, None, None)) (StrID ''a/b'') None [] []) =
      [NewRequestCall ''POST'' ''projects/a%2Fb/runners'' False,
       DoCall ''POST'' ''projects/a%2Fb/runners'' False] \<and>
   snd (DisableProjectRunner (delete_recorder None ((), None, None)) (StrID ''a/b'') (StrID ''c/d'') [] []) =
      [NewRequestCall ''DELETE'' ''projects/a%2Fb/runners/c%2Fd'' True,
       DoCall ''DELETE'' ''projects/a%2Fb/runners/c%2Fd'' True]"
  by (simp add: typed_recorders recorded_calls shouldEscape_def upperhex_def)


subsection \<open>Optional fields\<close>

lemma emit_append: "emit (fs @ gs) = emit fs @ emit gs"
  by (induction fs rule: emit.induct) auto

text \<open>
  C4 does not hold of the enable payload: \<open>RunnerID\<close> left unset, which is 0, is
  written to the body as \<^verbatim>\<open>"runner_id": 0\<close>.
\<close>

theorem unset_RunnerID_is_sent_counterexample:
  "RunnerID \<lparr>RunnerID = 0\<rparr> = 0 \<and>
   emit (EnableProjectRunnerOptions_json \<lparr>RunnerID = 0\<rparr>) = [(''runner_id'', IntV 0)] \<and>
   ''runner_id'' \<in> fst ` set (emit (EnableProjectRunnerOptions_json \<lparr>RunnerID = 0\<rparr>))"
  by (simp add: EnableProjectRunnerOptions_json_def)

text \<open>
  C4 for the optional fields. In \<^verbatim>\<open>ListRunnersOptions\<close> (and \<^verbatim>\<open>ListProjectRunnersOptions\<close>, the same
  struct), \<^verbatim>\<open>ListRunnersJobsOptions\<close> and \<^verbatim>\<open>UpdateRunnersDetailsOptions\<close>, every optional field
  of the struct that the caller leaves nil is written by neither encoder. The enable
  payload has no optional field: its \<open>RunnerID\<close> is always written, by either encoder.
\<close>

theorem unset_optional_fields_are_omitted:
  "(Scope lopt = None \<longrightarrow>
      emit (ListRunnersOptions_fields lf lopt) = emit (lf (ListOptions lopt))) \<and>
   (Status_j jopt = None \<longrightarrow>
      emit (ListRunnersJobsOptions_fields lf' bs jopt) = emit (lf' (ListOptions_j jopt))) \<and>
   (Description_u u = None \<longrightarrow>
      ''description'' \<notin> fst ` set (emit (UpdateRunnersDetailsOptions_url u)) \<and>
      ''description'' \<notin> fst ` set (emit (UpdateRunnersDetailsOptions_json u))) \<and>
   (Active_u u = None \<longrightarrow>
      ''active'' \<notin> fst ` set (emit (UpdateRunnersDetailsOptions_url u)) \<and>
      ''active'' \<notin> fst ` set (emit (UpdateRunnersDetailsOptions_json u))) \<and>
   (TagList_u u = None \<longrightarrow>
      ''tag_list[]'' \<notin> fst ` set (emit (UpdateRunnersDetailsOptions_url u)) \<and>
      ''tag_list'' \<notin> fst ` set (emit (UpdateRunnersDetailsOptions_json u))) \<and>
   (RunUntagged u = None \<longrightarrow>
      ''run_untagged'' \<notin> fst ` set (emit (UpdateRunnersDetailsOptions_url u)) \<and>
      ''run_untagged'' \<notin> fst ` set (emit (UpdateRunnersDetailsOptions_json u))) \<and>
   (Locked u = None \<longrightarrow>
      ''locked'' \<notin> fst ` set (emit (UpdateRunnersDetailsOptions_url u)) \<and>
      ''locked'' \<notin> fst ` set (emit (UpdateRunnersDetailsOptions_json u))) \<and>
   (AccessLevel_u u = None \<longrightarrow>
      ''access_level'' \<notin> fst ` set (emit (UpdateRunnersDetailsOptions_url u)) \<and>
      ''access_level'' \<notin> fst ` set (emit (UpdateRunnersDetailsOptions_json u))) \<and>
   emit (EnableProjectRunnerOptions_json en) = [(''runner_id'', IntV (RunnerID en))] \<and>
   emit (EnableProjectRunnerOptions_url en) = [(''RunnerID'', IntV (RunnerID en))]"
  by (simp add: ListRunnersOptions_fields_def ListRunnersJobsOptions_fields_def
      UpdateRunnersDetailsOptions_url_def UpdateRunnersDetailsOptions_json_def
      EnableProjectRunnerOptions_json_def EnableProjectRunnerOptions_url_def
      emit_append ptrV_def sliceV_def)

text \<open>
  With page 2 as the only field of the embedded \<^verbatim>\<open>ListOptions\<close>, and an update that sets
  nothing.
\<close>

theorem unset_optional_fields_are_omitted_witness:
  "Scope \<lparr>ListOptions = 2 :: go_int, Scope = None\<rparr> = None \<and>
   emit (ListRunnersOptions_fields (\<lambda>p. [(''page'', True, IntV p)])
           \<lparr>ListOptions = 2, Scope = None\<rparr>) = [(''page'', IntV 2)] \<and>
   emit (ListRunnersJobsOptions_fields (\<lambda>p. [(''page'', True, IntV p)]) StrV
           \<lparr>ListOptions_j = 2, Status_j = None\<rparr>) = [(''page'', IntV 2)] \<and>
   ''description'' \<notin> fst ` set (emit (UpdateRunnersDetailsOptions_json
       \<lparr>Description_u = None, Active_u = None, TagList_u = None, RunUntagged = None,
         Locked = None, AccessLevel_u = None\<rparr>)) \<and>
   ''tag_list[]'' \<notin> fst ` set (emit (UpdateRunnersDetailsOptions_url
       \<lparr>Description_u = None, Active_u = None, TagList_u = None, RunUntagged = None,
         Locked = None, AccessLevel_u = None\<rparr>)) \<and>
   emit (EnableProjectRunnerOptions_json \<lparr>RunnerID = 7\<rparr>) = [(''runner_id'', IntV 7)]"
  using unset_optional_fields_are_omitted
    [where lopt = "\<lparr>ListOptions = 2 :: go_int, Scope = None\<rparr>"
       and lf = "\<lambda>p. [(''page'', True, IntV p)]"
       and jopt = "\<lparr>ListOptions_j = 2 :: go_int, Status_j = None\<rparr>"
       and lf' = "\<lambda>p. [(''page'', True, IntV p)]" and bs = StrV
       and u = "\<lparr>Description_u = None, Active_u = None, TagList_u = None, RunUntagged = None,
         Locked = None, AccessLevel_u = None\<rparr>"
       and en = "\<lparr>RunnerID = 7\<rparr>"]
  by simp

subsection \<open>Decoding\<close>

lemma find_field_exact: "n \<in> set names \<Longrightarrow> find_field names n = Some n"
  by (simp add: find_field_def)

lemma find_field_None: "find_field names k = None \<Longrightarrow> k \<notin> set names"
  by (auto simp: find_field_def split: if_splits)

lemma dec_int_sint: "dec_int what (JNum (sint w)) cur = Inr w"
proof -
  have "- (2 ^ 63) \<le> sint w" "sint w < 2 ^ 63"
    using sint_ge [of w] sint_lt [of w] by simp_all
  then show ?thesis by simp
qed

lemma dec_members_append:
  "dec_members names assign (kvs @ kvs') x =
     (case dec_members names assign kvs x of
        Inl e \<Rightarrow> Inl e
      | Inr x' \<Rightarrow> dec_members names assign kvs' x')"
  by (induction kvs arbitrary: x) (auto split: option.splits sum.splits)

lemma dec_elements_length: "dec_elements dec z old vs = Inr xs \<Longrightarrow> length xs = length vs"
  by (induction vs arbitrary: xs old) (auto split: sum.splits)

lemma dec_slice_length:
  "dec_slice what dec z (cur, rest) (JArr vs) = Inr (Some xs, rest') \<Longrightarrow> length xs = length vs"
proof (cases vs)
  case Nil
  then show "dec_slice what dec z (cur, rest) (JArr vs) = Inr (Some xs, rest') \<Longrightarrow> ?thesis"
    by simp
next
  case (Cons v vs')
  assume "dec_slice what dec z (cur, rest) (JArr vs) = Inr (Some xs, rest')"
  with Cons have
    "dec_elements dec z ((case cur of None \<Rightarrow> [] | Some ys \<Rightarrow> ys) @ rest) (v # vs') = Inr xs"
    by (simp add: Let_def split: sum.splits)
  from dec_elements_length [OF this] Cons show ?thesis by simp
qed

lemma Unmarshal_Runners_length:
  "Unmarshal_Runners (JArr vs) cur = Inr (Some xs) \<Longrightarrow> length xs = length vs"
proof -
  assume "Unmarshal_Runners (JArr vs) cur = Inr (Some xs)"
  then obtain rest' where
    "dec_slice ''[]*Runner'' (dec_ptr dec_Runner Runner_zero) None (cur, []) (JArr vs)
       = Inr (Some xs, rest')"
    by (cases "dec_slice ''[]*Runner'' (dec_ptr dec_Runner Runner_zero) None (cur, []) (JArr vs)")
      (auto simp: Unmarshal_Runners_def)
  then show ?thesis by (rule dec_slice_length)
qed

text \<open>One member of a runner, then all the members of an object.\<close>

lemma Runner_assign_member:
  assumes "(k, v) \<in> set (Runner_members r)" and "Runner_agree S r x"
  shows "find_field Runner_names k = Some k \<and>
    (\<exists>x'. Runner_assign k v x = Inr x' \<and> Runner_agree (insert k S) r x')"
proof -
  have f1: "find_field Runner_names ''id'' = Some ''id''"
    and a1: "Runner_assign ''id'' (JNum (sint (ID r))) x = Inr (x\<lparr>ID := ID r\<rparr>)"
    and g1: "Runner_agree (insert ''id'' S) r (x\<lparr>ID := ID r\<rparr>)"
    using assms(2)
    by (simp_all add: Runner_names_def find_field_exact Runner_assign_def Runner_agree_def
        dec_int_sint del: dec_int.simps)
  have f2: "find_field Runner_names ''description'' = Some ''description''"
    and a2: "Runner_assign ''description'' (JStr (Description r)) x = Inr (x\<lparr>Description := Description r\<rparr>)"
    and g2: "Runner_agree (insert ''description'' S) r (x\<lparr>Description := Description r\<rparr>)"
    using assms(2)
    by (simp_all add: Runner_names_def find_field_exact Runner_assign_def Runner_agree_def
        dec_int_sint del: dec_int.simps)
  have f3: "find_field Runner_names ''active'' = Some ''active''"
    and a3: "Runner_assign ''active'' (JBool (Active r)) x = Inr (x\<lparr>Active := Active r\<rparr>)"
    and g3: "Runner_agree (insert ''active'' S) r (x\<lparr>Active := Active r\<rparr>)"
    using assms(2)
    by (simp_all add: Runner_names_def find_field_exact Runner_assign_def Runner_agree_def
        dec_int_sint del: dec_int.simps)
  have f4: "find_field Runner_names ''is_shared'' = Some ''is_shared''"
    and a4: "Runner_assign ''is_shared'' (JBool (IsShared r)) x = Inr (x\<lparr>IsShared := IsShared r\<rparr>)"
    and g4: "Runner_agree (insert ''is_shared'' S) r (x\<lparr>IsShared := IsShared r\<rparr>)"
    using assms(2)
    by (simp_all add: Runner_names_def find_field_exact Runner_assign_def Runner_agree_def
        dec_int_sint del: dec_int.simps)
  have f5: "find_field Runner_names ''name'' = Some ''name''"
    and a5: "Runner_assign ''name'' (JStr (Name r)) x = Inr (x\<lparr>Name := Name r\<rparr>)"
    and g5: "Runner_agree (insert ''name'' S) r (x\<lparr>Name := Name r\<rparr>)"
    using assms(2)
    by (simp_all add: Runner_names_def find_field_exact Runner_assign_def Runner_agree_def
        dec_int_sint del: dec_int.simps)
  have f6: "find_field Runner_names ''online'' = Some ''online''"
    and a6: "Runner_assign ''online'' (JBool (Online r)) x = Inr (x\<lparr>Online := Online r\<rparr>)"
    and g6: "Runner_agree (insert ''online'' S) r (x\<lparr>Online := Online r\<rparr>)"
    using assms(2)
    by (simp_all add: Runner_names_def find_field_exact Runner_assign_def Runner_agree_def
        dec_int_sint del: dec_int.simps)
  have f7: "find_field Runner_names ''status'' = Some ''status''"
    and a7: "Runner_assign ''status'' (JStr (Status r)) x = Inr (x\<lparr>Status := Status r\<rparr>)"
    and g7: "Runner_agree (insert ''status'' S) r (x\<lparr>Status := Status r\<rparr>)"
    using assms(2)
    by (simp_all add: Runner_names_def find_field_exact Runner_assign_def Runner_agree_def
        dec_int_sint del: dec_int.simps)
  from assms(1) have
    "k = ''id'' \<and> v = JNum (sint (ID r)) \<or>
    k = ''description'' \<and> v = JStr (Description r) \<or>
    k = ''active'' \<and> v = JBool (Active r) \<or>
    k = ''is_shared'' \<and> v = JBool (IsShared r) \<or>
    k = ''name'' \<and> v = JStr (Name r) \<or>
    k = ''online'' \<and> v = JBool (Online r) \<or>
    k = ''status'' \<and> v = JStr (Status r)"
    by (simp add: Runner_members_def)
  then show ?thesis
  proof (elim disjE conjE)
    assume "k = ''id''" and "v = JNum (sint (ID r))"
    with f1 a1 g1 show ?thesis by simp
  next
    assume "k = ''description''" and "v = JStr (Description r)"
    with f2 a2 g2 show ?thesis by simp
  next
    assume "k = ''active''" and "v = JBool (Active r)"
    with f3 a3 g3 show ?thesis by simp
  next
    assume "k = ''is_shared''" and "v = JBool (IsShared r)"
    with f4 a4 g4 show ?thesis by simp
  next
    assume "k = ''name''" and "v = JStr (Name r)"
    with f5 a5 g5 show ?thesis by simp
  next
    assume "k = ''online''" and "v = JBool (Online r)"
    with f6 a6 g6 show ?thesis by simp
  next
    assume "k = ''status''" and "v = JStr (Status r)"
    with f7 a7 g7 show ?thesis by simp
  qed
qed

lemma Runner_agree_skip:
  "k \<notin> set Runner_names \<Longrightarrow> Runner_agree S r x \<Longrightarrow> Runner_agree (insert k S) r x"
  by (auto simp: Runner_agree_def Runner_names_def)

lemma Runner_agree_all: "Runner_agree S r x \<Longrightarrow> set Runner_names \<subseteq> S \<Longrightarrow> x = r"
  by (simp add: Runner_agree_def Runner_names_def)

lemma dec_members_Runner:
  "(\<forall>(k, v) \<in> set kvs. find_field Runner_names k = None \<or> (k, v) \<in> set (Runner_members r)) \<Longrightarrow>
   Runner_agree S r x \<Longrightarrow>
   \<exists>x'. dec_members Runner_names Runner_assign kvs x = Inr x' \<and>
     Runner_agree (S \<union> fst ` set kvs) r x'"
proof (induction kvs arbitrary: x S)
  case Nil
  then show ?case by simp
next
  case (Cons kv kvs)
  obtain k v where kv: "kv = (k, v)" by (cases kv)
  from Cons.prems(1) have rest:
    "\<forall>(k, v) \<in> set kvs. find_field Runner_names k = None \<or> (k, v) \<in> set (Runner_members r)"
    by simp
  from Cons.prems(1) kv
  consider "find_field Runner_names k = None" | "(k, v) \<in> set (Runner_members r)"
    by auto
  then show ?case
  proof cases
    case 1
    then have "k \<notin> set Runner_names" by (rule find_field_None)
    then have "Runner_agree (insert k S) r x"
      using Cons.prems(2) by (rule Runner_agree_skip)
    from Cons.IH [OF rest this] 1 kv show ?thesis by simp
  next
    case 2
    from Runner_assign_member [OF 2 Cons.prems(2)]
    obtain x1 where found: "find_field Runner_names k = Some k"
      and assigned: "Runner_assign k v x = Inr x1"
      and agree: "Runner_agree (insert k S) r x1"
      by blast
    from Cons.IH [OF rest agree] found assigned kv show ?thesis by simp
  qed
qed

lemma dec_Runner_object: "runner_object r kvs \<Longrightarrow> dec_Runner (JObj kvs) z = Inr r"
proof -
  assume "runner_object r kvs"
  then have known:
      "\<forall>(k, v) \<in> set kvs. find_field Runner_names k = None \<or> (k, v) \<in> set (Runner_members r)"
    and all: "set (Runner_members r) \<subseteq> set kvs"
    by (simp_all add: runner_object_def)
  have "Runner_agree {} r z" by (simp add: Runner_agree_def)
  from dec_members_Runner [OF known this]
  obtain x' where dec: "dec_members Runner_names Runner_assign kvs z = Inr x'"
    and agree: "Runner_agree (fst ` set kvs) r x'"
    by auto
  have "fst ` set (Runner_members r) \<subseteq> fst ` set kvs"
    using all by (rule image_mono)
  then have "set Runner_names \<subseteq> fst ` set kvs"
    by (simp add: Runner_members_def Runner_names_def)
  with agree have "x' = r" by (rule Runner_agree_all)
  with dec show ?thesis by simp
qed

lemma runner_object_members: "runner_object r (Runner_members r)"
  by (auto simp: runner_object_def)

lemma dec_elements_runner_objects:
  "list_all2 runner_object rs objs \<Longrightarrow>
   dec_elements (dec_ptr dec_Runner Runner_zero) None old (map JObj objs) = Inr (map Some rs)"
proof (induction rs objs arbitrary: old rule: list_all2_induct)
  case Nil
  show ?case by simp
next
  case (Cons r rs kvs objs)
  have "dec_ptr dec_Runner Runner_zero (JObj kvs) cur = Inr (Some r)" for cur
    using Cons.hyps(1) by (simp add: dec_Runner_object del: dec_Runner.simps)
  with Cons.IH show ?case by simp
qed

lemma Unmarshal_runner_objects:
  assumes "list_all2 runner_object rs objs"
  shows "Unmarshal_Runners (JArr (map JObj objs)) cur = Inr (Some (map Some rs))"
proof (cases objs)
  case Nil
  with assms show ?thesis by (simp add: Unmarshal_Runners_def)
next
  case (Cons kvs objs')
  from dec_elements_runner_objects [OF assms]
  have "dec_elements (dec_ptr dec_Runner Runner_zero) None old (JObj kvs # map JObj objs')
          = Inr (map Some rs)" for old
    by (simp add: Cons)
  with Cons show ?thesis
    by (simp add: Unmarshal_Runners_def Let_def del: dec_elements.simps)
qed

lemma Unmarshal_Runner_json:
  "Unmarshal_Runners (JArr (map Runner_json rs)) cur = Inr (Some (map Some rs))"
proof -
  have "list_all2 runner_object rs (map Runner_members rs)"
    by (simp add: list_all2_conv_all_nth runner_object_members)
  moreover have "map Runner_json rs = map JObj (map Runner_members rs)"
    by (simp add: Runner_json_def)
  ultimately show ?thesis
    by (simp only: Unmarshal_runner_objects)
qed

subsection \<open>Decoding a list of runners\<close>

text \<open>
  C7. A JSON array of well-formed runner objects decodes into a slice of as many
  runners, each with the seven field values of its object, in whatever order the
  object gives its members, also when it repeats one or has members that \<^verbatim>\<open>Runner\<close>
  has no field for, and whatever the struct held before; so for the objects that hold
  just the seven members in the order of the fields. \<open>ListRunners\<close>, \<open>ListAllRunners\<close> and
  \<open>ListProjectRunners\<close> return that slice when the response carries such an array. An
  array that decodes at all gives a slice of its length.
\<close>

theorem list_runners_decoding_roundtrip:
  "(runner_object r kvs \<longrightarrow> dec_Runner (JObj kvs) z = Inr r) \<and>
   (list_all2 runner_object rs objs \<longrightarrow>
      Unmarshal_Runners (JArr (map JObj objs)) None = Inr (Some (map Some rs))) \<and>
   Unmarshal_Runners (JArr (map Runner_json rs)) None = Inr (Some (map Some rs)) \<and>
   (\<forall>vs xs. Unmarshal_Runners (JArr vs) None = Inr (Some xs) \<longrightarrow> length xs = length vs) \<and>
   (\<forall>req w1 resp w2.
      list_all2 runner_object rs objs \<and>
      build ''GET'' ''runners'' (Some opt) fs w = (Inr req, w1) \<and>
      send req w1 = (Inr (resp, JArr (map JObj objs)), w2) \<longrightarrow>
      ListRunners (decoding_client build send Unmarshal_Runners) opt fs w =
        ((Some (map Some rs), Some resp, None), w2)) \<and>
   (\<forall>req w1 resp w2.
      list_all2 runner_object rs objs \<and>
      build ''GET'' ''runners/all'' (Some opt) fs w = (Inr req, w1) \<and>
      send req w1 = (Inr (resp, JArr (map JObj objs)), w2) \<longrightarrow>
      ListAllRunners (decoding_client build send Unmarshal_Runners) opt fs w =
        ((Some (map Some rs), Some resp, None), w2)) \<and>
   (\<forall>s req w1 resp w2.
      list_all2 runner_object rs objs \<and>
      parseID pid = Inr s \<and>
      build ''GET'' (''projects/'' @ QueryEscape s @ ''/runners'') (Some opt) fs w = (Inr req, w1) \<and>
      send req w1 = (Inr (resp, JArr (map JObj objs)), w2) \<longrightarrow>
      ListProjectRunners (decoding_client build send Unmarshal_Runners) pid opt fs w =
        ((Some (map Some rs), Some resp, None), w2))"
proof (intro conjI allI impI)
  assume "runner_object r kvs"
  then show "dec_Runner (JObj kvs) z = Inr r" by (rule dec_Runner_object)
next
  assume "list_all2 runner_object rs objs"
  then show "Unmarshal_Runners (JArr (map JObj objs)) None = Inr (Some (map Some rs))"
    by (rule Unmarshal_runner_objects)
next
  show "Unmarshal_Runners (JArr (map Runner_json rs)) None = Inr (Some (map Some rs))"
    by (rule Unmarshal_Runner_json)
next
  fix vs xs
  assume "Unmarshal_Runners (JArr vs) None = Inr (Some xs)"
  then show "length xs = length vs" by (rule Unmarshal_Runners_length)
next
  fix req w1 resp w2
  assume "list_all2 runner_object rs objs \<and>
      build ''GET'' ''runners'' (Some opt) fs w = (Inr req, w1) \<and>
      send req w1 = (Inr (resp, JArr (map JObj objs)), w2)"
  then show "ListRunners (decoding_client build send Unmarshal_Runners) opt fs w =
        ((Some (map Some rs), Some resp, None), w2)"
    by (simp add: ListRunners_def decoding_client_def Unmarshal_runner_objects [of rs objs])
next
  fix req w1 resp w2
  assume "list_all2 runner_object rs objs \<and>
      build ''GET'' ''runners/all'' (Some opt) fs w = (Inr req, w1) \<and>
      send req w1 = (Inr (resp, JArr (map JObj objs)), w2)"
  then show "ListAllRunners (decoding_client build send Unmarshal_Runners) opt fs w =
        ((Some (map Some rs), Some resp, None), w2)"
    by (simp add: ListAllRunners_def decoding_client_def Unmarshal_runner_objects [of rs objs])
next
  fix s req w1 resp w2
  assume "list_all2 runner_object rs objs \<and>
      parseID pid = Inr s \<and>
      build ''GET'' (''projects/'' @ QueryEscape s @ ''/runners'') (Some opt) fs w = (Inr req, w1) \<and>
      send req w1 = (Inr (resp, JArr (map JObj objs)), w2)"
  then show "ListProjectRunners (decoding_client build send Unmarshal_Runners) pid opt fs w =
        ((Some (map Some rs), Some resp, None), w2)"
    by (simp add: ListProjectRunners_def Let_def decoding_client_def Unmarshal_runner_objects [of rs objs])
qed

text \<open>
  A response with two runner objects, through the three list functions: the
  first has its members in the order of the alphabet and one that \<^verbatim>\<open>Runner\<close> has no
  field for, the second has them in the reverse of the order of the fields and gives
  the last one twice. The world counts the round trips.
\<close>

theorem list_runners_decoding_roundtrip_witness:
  "runner_object sample_runner sample_runner_object \<and>
   dec_Runner (JObj sample_runner_object) sample_other_runner = Inr sample_runner \<and>
   list_all2 runner_object [sample_runner, sample_other_runner]
     [sample_runner_object, sample_other_runner_object] \<and>
   Unmarshal_Runners (JArr [JObj sample_runner_object, JObj sample_other_runner_object]) None =
     Inr (Some [Some sample_runner, Some sample_other_runner]) \<and>
   length [Some sample_runner, Some sample_other_runner] =
     length [JObj sample_runner_object, JObj sample_other_runner_object] \<and>
   ListRunners
     (decoding_client (\<lambda>m u opt fs w. (Inr (m, u), w))
        (\<lambda>req w. (Inr (''200 OK'',
           JArr [JObj sample_runner_object, JObj sample_other_runner_object]), Suc w))
        Unmarshal_Runners)
     (None :: unit ListRunnersOptions ptr) ([] :: unit list) (0 :: nat) =
     ((Some [Some sample_runner, Some sample_other_runner], Some ''200 OK'', None), 1) \<and>
   ListAllRunners
     (decoding_client (\<lambda>m u opt fs w. (Inr (m, u), w))
        (\<lambda>req w. (Inr (''200 OK'',
           JArr [JObj sample_runner_object, JObj sample_other_runner_object]), Suc w))
        Unmarshal_Runners)
     (None :: unit ListRunnersOptions ptr) ([] :: unit list) (0 :: nat) =
     ((Some [Some sample_runner, Some sample_other_runner], Some ''200 OK'', None), 1) \<and>
   ListProjectRunners
     (decoding_client (\<lambda>m u opt fs w. (Inr (m, u), w))
        (\<lambda>req w. (Inr (''200 OK'',
           JArr [JObj sample_runner_object, JObj sample_other_runner_object]), Suc w))
        Unmarshal_Runners)
     (IntID 42) (None :: unit ListRunnersOptions ptr) ([] :: unit list) (0 :: nat) =
     ((Some [Some sample_runner, Some sample_other_runner], Some ''200 OK'', None), 1)"
proof -
  have o1: "runner_object sample_runner sample_runner_object"
    by (simp add: runner_object_def sample_runner_def sample_runner_object_def
        Runner_members_def Runner_names_def find_field_def equalFold_def lower_def)
  have o2: "runner_object sample_other_runner sample_other_runner_object"
    by (simp add: runner_object_def sample_other_runner_def sample_other_runner_object_def
        Runner_members_def Runner_names_def find_field_def equalFold_def lower_def)
  from o1 o2 show ?thesis
    using list_runners_decoding_roundtrip
      [where r = sample_runner and kvs = sample_runner_object and z = sample_other_runner
         and rs = "[sample_runner, sample_other_runner]"
         and objs = "[sample_runner_object, sample_other_runner_object]"
         and build = "\<lambda>m u opt fs w. (Inr (m, u), w)"
         and send = "\<lambda>req w. (Inr (''200 OK'',
             JArr [JObj sample_runner_object, JObj sample_other_runner_object]), Suc w)"
         and opt = "None :: unit ListRunnersOptions ptr" and fs = "[] :: unit list"
         and w = "0 :: nat" and pid = "IntID 42"]
    by (simp add: Itoa_42)
qed

subsection \<open>The key of the token\<close>

lemma map_sum_Inr_iff: "map_sum f g x = Inr b \<longleftrightarrow> (\<exists>y. x = Inr y \<and> b = g y)"
  by (cases x) auto

lemma foldName_RunnersDetails_names:
  "map foldName RunnersDetails_names =
     [''active'', ''architecture'', ''description'', ''id'', ''is_shared'', ''contacted_at'',
      ''name'', ''online'', ''status'', ''platform'', ''projects'', ''token'', ''revision'',
      ''tag_list'', ''version'', ''access_level'']"
  by (simp add: RunnersDetails_names_def lower_def)

lemma find_equalFold:
  "distinct (map foldName names) \<Longrightarrow> n \<in> set names \<Longrightarrow>
   find (\<lambda>m. equalFold m key) names = Some n \<longleftrightarrow> equalFold n key"
proof (induction names)
  case Nil
  then show ?case by simp
next
  case (Cons m ms)
  show ?case
  proof (cases "n = m")
    case True
    have "find (\<lambda>m. equalFold m key) ms \<noteq> Some m" if "\<not> equalFold m key"
      using that by (auto simp: find_Some_iff)
    with True show ?thesis by auto
  next
    case False
    with Cons.prems have "n \<in> set ms" by simp
    moreover from this Cons.prems(1) have "foldName n \<noteq> foldName m"
      by (metis distinct.simps(2) image_eqI list.simps(9) set_map)
    ultimately have "n \<in> set ms" and "foldName n \<noteq> foldName m" by simp_all
    with Cons show ?thesis by (auto simp: equalFold_def)
  qed
qed

lemma find_field_iff:
  assumes "distinct (map foldName names)" and "n \<in> set names"
  shows "find_field names key = Some n \<longleftrightarrow> equalFold n key"
proof (cases "key \<in> set names")
  case False
  with assms show ?thesis by (simp add: find_field_def find_equalFold)
next
  case True
  from assms(1) have "inj_on foldName (set names)" by (simp add: distinct_map)
  with True assms(2) have "key = n \<longleftrightarrow> foldName n = foldName key"
    by (auto dest: inj_onD)
  with True show ?thesis by (simp add: find_field_def equalFold_def)
qed

lemma find_field_Token_iff:
  "find_field RunnersDetails_names key = Some ''Token'' \<longleftrightarrow> equalFold ''Token'' key"
proof (rule find_field_iff)
  show "distinct (map foldName RunnersDetails_names)"
    unfolding foldName_RunnersDetails_names by simp
  show "''Token'' \<in> set RunnersDetails_names"
    by (simp add: RunnersDetails_names_def)
qed

lemma RunnersDetails_assign_Token:
  "RunnersDetails_assign pt ''Token'' (JStr t) (d, ps, ts) = Inr (d\<lparr>Token := t\<rparr>, ps, ts)"
  by simp

lemma RunnersDetails_assign_other:
  "RunnersDetails_assign pt n v (d, ps, ts) = Inr (d', ps', ts') \<Longrightarrow> n \<noteq> ''Token'' \<Longrightarrow>
   Token d' = Token d"
  by (auto simp: map_sum_Inr_iff split: if_splits)

lemma dec_RunnersDetails_Token_last:
  assumes "equalFold ''Token'' key"
  shows "dec_RunnersDetails pt (JObj (kvs @ [(key, JStr t)])) d =
     (case dec_RunnersDetails pt (JObj kvs) d of
        Inl e \<Rightarrow> Inl e
      | Inr d' \<Rightarrow> Inr (d'\<lparr>Token := t\<rparr>))"
proof -
  from assms have found: "find_field RunnersDetails_names key = Some ''Token''"
    by (simp add: find_field_Token_iff)
  show ?thesis
  proof (cases "dec_members RunnersDetails_names (RunnersDetails_assign pt) kvs (d, [], [])")
    case (Inl e)
    then show ?thesis by (simp add: dec_members_append)
  next
    case (Inr st)
    obtain d' ps ts where "st = (d', ps, ts)" by (cases st)
    with Inr found show ?thesis
      by (simp add: dec_members_append RunnersDetails_assign_Token
          del: RunnersDetails_assign.simps)
  qed
qed

text \<open>
  C8 does not hold of the decoding: the field \<open>Token\<close> is not bound to the key \<^verbatim>\<open>Token\<close> as
  against \<^verbatim>\<open>token\<close>. A details object with the key \<^verbatim>\<open>token\<close> fills the field, and after
  a member \<^verbatim>\<open>Token\<close> a member \<^verbatim>\<open>token\<close> overrides it.
\<close>

theorem Token_is_read_from_key_token_counterexample:
  "''token'' \<noteq> ''Token'' \<and>
   dec_RunnersDetails (\<lambda>s. Some s) (JObj [(''token'', JStr ''abc'')])
       (RunnersDetails_zero :: string RunnersDetails)
     = Inr (RunnersDetails_zero \<lparr>Token := ''abc''\<rparr>) \<and>
   dec_RunnersDetails (\<lambda>s. Some s)
       (JObj [(''Token'', JStr ''abc''), (''token'', JStr ''xyz'')])
       (RunnersDetails_zero :: string RunnersDetails)
     = Inr (RunnersDetails_zero \<lparr>Token := ''xyz''\<rparr>)"
proof -
  have "find_field RunnersDetails_names ''token'' = Some ''Token''"
    and "find_field RunnersDetails_names ''Token'' = Some ''Token''"
    by (simp_all add: find_field_Token_iff equalFold_def lower_def)
  then show ?thesis
    by (simp add: RunnersDetails_assign_Token del: RunnersDetails_assign.simps)
qed

text \<open>
  C8 as the code has it. The tag of the field \<open>Token\<close> of \<^verbatim>\<open>RunnersDetails\<close> is \<^verbatim>\<open>Token\<close>, with
  the capital, and \<^verbatim>\<open>token\<close> is the tag of no field; the key \<^verbatim>\<open>Token\<close> is matched to the
  field. But the keys matched to it are those equal to \<^verbatim>\<open>Token\<close> under case folding,
  and no other: the string of a member with such a key is stored in the field,
  whatever members come before it, so the field is filled in whichever casing the
  remote API writes the key, and the last such member decides. A key matched to any
  other field leaves \<open>Token\<close> as it is.
\<close>

theorem Token_is_read_in_any_casing:
  "find_field RunnersDetails_names ''Token'' = Some ''Token'' \<and>
   ''token'' \<notin> set RunnersDetails_names \<and>
   (\<forall>key. find_field RunnersDetails_names key = Some ''Token'' \<longleftrightarrow> equalFold ''Token'' key) \<and>
   (\<forall>key. equalFold ''Token'' key \<longrightarrow>
      dec_RunnersDetails pt (JObj (kvs @ [(key, JStr t)])) d =
        (case dec_RunnersDetails pt (JObj kvs) d of
           Inl e \<Rightarrow> Inl e
         | Inr d' \<Rightarrow> Inr (d'\<lparr>Token := t\<rparr>))) \<and>
   (\<forall>key n v ps ts d' ps' ts'.
      find_field RunnersDetails_names key = Some n \<and> n \<noteq> ''Token'' \<and>
      RunnersDetails_assign pt n v (d, ps, ts) = Inr (d', ps', ts') \<longrightarrow>
      Token d' = Token d)"
proof (intro conjI allI impI)
  show "find_field RunnersDetails_names ''Token'' = Some ''Token''"
    by (simp add: find_field_Token_iff equalFold_def)
next
  show "''token'' \<notin> set RunnersDetails_names"
    by (simp add: RunnersDetails_names_def)
next
  fix key
  show "find_field RunnersDetails_names key = Some ''Token'' \<longleftrightarrow> equalFold ''Token'' key"
    by (rule find_field_Token_iff)
next
  fix key
  assume "equalFold ''Token'' key"
  then show "dec_RunnersDetails pt (JObj (kvs @ [(key, JStr t)])) d =
     (case dec_RunnersDetails pt (JObj kvs) d of
        Inl e \<Rightarrow> Inl e
      | Inr d' \<Rightarrow> Inr (d'\<lparr>Token := t\<rparr>))"
    by (rule dec_RunnersDetails_Token_last)
next
  fix key n v ps ts d' ps' ts'
  assume "find_field RunnersDetails_names key = Some n \<and> n \<noteq> ''Token'' \<and>
      RunnersDetails_assign pt n v (d, ps, ts) = Inr (d', ps', ts')"
  then show "Token d' = Token d"
    by (blast dest: RunnersDetails_assign_other)
qed

text \<open>
  A details object with the members \<^verbatim>\<open>id\<close> and \<^verbatim>\<open>TOKEN\<close>, and one whose key is \<^verbatim>\<open>token\<close>
  written with the Kelvin sign (U+212A) for the k; then a member \<^verbatim>\<open>description\<close> decoded
  into a struct that holds a token.
\<close>

theorem Token_is_read_in_any_casing_witness:
  "equalFold ''Token'' ''TOKEN'' \<and>
   find_field RunnersDetails_names ''TOKEN'' = Some ''Token'' \<and>
   dec_RunnersDetails (\<lambda>s. Some s) (JObj [(''id'', JNum 9), (''TOKEN'', JStr ''abc'')])
       (RunnersDetails_zero :: string RunnersDetails)
     = Inr (RunnersDetails_zero \<lparr>ID_d := 9, Token := ''abc''\<rparr>) \<and>
   equalFold ''Token'' [CHR ''t'', CHR ''o'', CHR 0xE2, CHR 0x84, CHR 0xAA, CHR ''e'', CHR ''n''] \<and>
   dec_RunnersDetails (\<lambda>s. Some s)
       (JObj [(''id'', JNum 9),
              ([CHR ''t'', CHR ''o'', CHR 0xE2, CHR 0x84, CHR 0xAA, CHR ''e'', CHR ''n''],
               JStr ''abc'')])
       (RunnersDetails_zero :: string RunnersDetails)
     = Inr (RunnersDetails_zero \<lparr>ID_d := 9, Token := ''abc''\<rparr>) \<and>
   find_field RunnersDetails_names ''description'' = Some ''description'' \<and>
   RunnersDetails_assign (\<lambda>s. Some s) ''description'' (JStr ''builder'')
       (sample_details \<lparr>Token := ''abc''\<rparr>, [], [])
     = Inr (sample_details \<lparr>Token := ''abc'', Description_d := ''builder''\<rparr>, [], []) \<and>
   Token (sample_details \<lparr>Token := ''abc'', Description_d := ''builder''\<rparr>) = ''abc''"
proof -
  note at_id = Token_is_read_in_any_casing
    [where pt = "\<lambda>s. Some s" and kvs = "[(''id'', JNum 9)]" and t = "''abc''"
       and d = "RunnersDetails_zero :: string RunnersDetails"]
  have fold1: "equalFold ''Token'' ''TOKEN''"
    by (simp add: equalFold_def lower_def)
  have fold2:
    "equalFold ''Token'' [CHR ''t'', CHR ''o'', CHR 0xE2, CHR 0x84, CHR 0xAA, CHR ''e'', CHR ''n'']"
    by (simp add: equalFold_def lower_def)
  have matched: "find_field RunnersDetails_names ''TOKEN'' = Some ''Token''"
    using fold1 at_id [THEN conjunct2, THEN conjunct2, THEN conjunct1, rule_format, of "''TOKEN''"]
    by simp
  have before:
    "dec_RunnersDetails (\<lambda>s. Some s) (JObj [(''id'', JNum 9)])
         (RunnersDetails_zero :: string RunnersDetails)
       = Inr (RunnersDetails_zero \<lparr>ID_d := 9\<rparr>)"
    by (simp add: find_field_def RunnersDetails_names_def)
  have read1:
    "dec_RunnersDetails (\<lambda>s. Some s) (JObj [(''id'', JNum 9), (''TOKEN'', JStr ''abc'')])
         (RunnersDetails_zero :: string RunnersDetails)
       = Inr (RunnersDetails_zero \<lparr>ID_d := 9, Token := ''abc''\<rparr>)"
    using before fold1
      at_id [THEN conjunct2, THEN conjunct2, THEN conjunct2, THEN conjunct1, rule_format,
        of "''TOKEN''"]
    by simp
  have read2:
    "dec_RunnersDetails (\<lambda>s. Some s)
       (JObj [(''id'', JNum 9),
              ([CHR ''t'', CHR ''o'', CHR 0xE2, CHR 0x84, CHR 0xAA, CHR ''e'', CHR ''n''],
               JStr ''abc'')])
       (RunnersDetails_zero :: string RunnersDetails)
     = Inr (RunnersDetails_zero \<lparr>ID_d := 9, Token := ''abc''\<rparr>)"
    using before fold2
      at_id [THEN conjunct2, THEN conjunct2, THEN conjunct2, THEN conjunct1, rule_format,
        of "[CHR ''t'', CHR ''o'', CHR 0xE2, CHR 0x84, CHR 0xAA, CHR ''e'', CHR ''n'']"]
    by simp
  have found: "find_field RunnersDetails_names ''description'' = Some ''description''"
    by (simp add: find_field_def RunnersDetails_names_def)
  have assigned:
    "RunnersDetails_assign (\<lambda>s. Some s) ''description'' (JStr ''builder'')
         (sample_details \<lparr>Token := ''abc''\<rparr>, [], [])
       = Inr (sample_details \<lparr>Token := ''abc'', Description_d := ''builder''\<rparr>, [], [])"
    by simp
  have kept: "Token (sample_details \<lparr>Token := ''abc'', Description_d := ''builder''\<rparr>) = ''abc''"
    using found assigned
      Token_is_read_in_any_casing
        [where pt = "\<lambda>s. Some s" and d = "sample_details \<lparr>Token := ''abc''\<rparr>",
          THEN conjunct2, THEN conjunct2, THEN conjunct2, THEN conjunct2, rule_format,
          of "''description''" "''description''" "JStr ''builder''" "[]" "[]"
             "sample_details \<lparr>Token := ''abc'', Description_d := ''builder''\<rparr>" "[]" "[]"]
    by simp
  from fold1 matched read1 fold2 read2 found assigned kept show ?thesis by blast
qed

end
